theory Spec2Isabelle
  imports Main
begin

section \<open>Thrown values\<close>

text \<open>
  Every failure of the authentication core is a thrown JavaScript object. Three classes
  occur: the plain \<^verbatim>\<open>Error\<close> the services build themselves, the two error
  classes of the jsonwebtoken library (\<^verbatim>\<open>TokenExpiredError\<close> is a subclass of
  \<^verbatim>\<open>JsonWebTokenError\<close>), and the request error of the Prisma client, which
  carries a code. All carry a message; the boundary handlers compare messages.
\<close>

datatype exn =
    Error string
  | JsonWebTokenError string
  | TokenExpiredError string
  | PrismaClientKnownRequestError string

fun message :: "exn \<Rightarrow> string" where
  "message (Error m) = m"
| "message (JsonWebTokenError m) = m"
| "message (TokenExpiredError m) = m"
| "message (PrismaClientKnownRequestError m) = m"

fun instanceof_TokenExpiredError :: "exn \<Rightarrow> bool" where
  "instanceof_TokenExpiredError (TokenExpiredError m) = True"
| "instanceof_TokenExpiredError e = False"

fun instanceof_JsonWebTokenError :: "exn \<Rightarrow> bool" where
  "instanceof_JsonWebTokenError (JsonWebTokenError m) = True"
| "instanceof_JsonWebTokenError (TokenExpiredError m) = True"
| "instanceof_JsonWebTokenError e = False"

section \<open>Signed tokens\<close>

text \<open>
  The jsonwebtoken library is outside the repository. Its tokens are modelled with an
  ideal signature: a token is either a string that is no JWT at all, or a JWT that
  records the key it was signed with, the signed claims, and the registered claims
  \<^verbatim>\<open>iat\<close>, \<^verbatim>\<open>exp\<close> (seconds), \<^verbatim>\<open>iss\<close> and \<^verbatim>\<open>aud\<close>.
  The signed claims are the two objects the repository passes to \<^verbatim>\<open>jwt.sign\<close>:
  \<^verbatim>\<open>{sub, email, roleIds, permissions, type: 'access'}\<close> and
  \<^verbatim>\<open>{sub, sessionId, jti, type: 'refresh'}\<close>.
\<close>

datatype claims =
    AccessClaims string string "string list" "string list"
  | RefreshClaims string string string

fun type_of :: "claims \<Rightarrow> string" where
  "type_of (AccessClaims sub email roleIds permissions) = ''access''"
| "type_of (RefreshClaims sub sessionId jti) = ''refresh''"

record jwt =
  signed_with :: string
  payload :: claims
  iat :: nat
  exp :: nat
  iss :: string
  aud :: string

datatype token = Malformed string | Jwt jwt

text \<open>
  \<^verbatim>\<open>jwt.sign(payload, secret, {expiresIn, issuer, audience})\<close> at clock \<open>clock\<close>
  (milliseconds, as \<^verbatim>\<open>Date.now()\<close>): the library stamps
  \<^verbatim>\<open>iat = floor(clock / 1000)\<close> and \<^verbatim>\<open>exp = iat + expiresIn\<close>. The lifetime
  is taken in seconds: the strings \<^verbatim>\<open>'15m'\<close> and \<^verbatim>\<open>'7d'\<close> of the source
  are the 900 and 604800 seconds the library derives from them.
\<close>

definition jwt_sign :: "claims \<Rightarrow> string \<Rightarrow> nat \<Rightarrow> string \<Rightarrow> string \<Rightarrow> nat \<Rightarrow> token" where
  "jwt_sign p secret expiresIn issuer audience clock =
     Jwt \<lparr> signed_with = secret, payload = p, iat = clock div 1000,
           exp = clock div 1000 + expiresIn, iss = issuer, aud = audience \<rparr>"

text \<open>
  \<^verbatim>\<open>jwt.verify(token, secret, {issuer, audience})\<close>, in the library's order: the
  structure, the signature, the expiry (\<^verbatim>\<open>clockTimestamp >= exp\<close>), the audience,
  the issuer.
\<close>

definition jwt_verify :: "token \<Rightarrow> string \<Rightarrow> string \<Rightarrow> string \<Rightarrow> nat \<Rightarrow> exn + claims" where
  "jwt_verify t secret issuer audience clock =
     (case t of
        Malformed s \<Rightarrow> Inl (JsonWebTokenError ''jwt malformed'')
      | Jwt j \<Rightarrow>
          if signed_with j \<noteq> secret then Inl (JsonWebTokenError ''invalid signature'')
          else if clock div 1000 \<ge> exp j then Inl (TokenExpiredError ''jwt expired'')
          else if aud j \<noteq> audience
          then Inl (JsonWebTokenError (''jwt audience invalid. expected: '' @ audience))
          else if iss j \<noteq> issuer
          then Inl (JsonWebTokenError (''jwt issuer invalid. expected: '' @ issuer))
          else Inr (payload j))"

section \<open>TokenService\<close>

record TokenService =
  accessSecret :: string
  refreshSecret :: string
  accessExpiresIn :: nat
  refreshExpiresIn :: nat

record TokenServiceConfig =
  config_accessSecret :: "string option"
  config_refreshSecret :: "string option"
  config_accessExpiresIn :: "nat option"
  config_refreshExpiresIn :: "nat option"

text \<open>
  JavaScript's \<^verbatim>\<open>a || b\<close> on a string that may be undefined: the left operand
  when it is a non-empty string, the right one otherwise.
\<close>

definition js_or :: "string option \<Rightarrow> string \<Rightarrow> string" where
  "js_or a b = (case a of None \<Rightarrow> b | Some s \<Rightarrow> if s = [] then b else s)"

definition js_or_span :: "nat option \<Rightarrow> nat \<Rightarrow> nat" where
  "js_or_span a b = (case a of None \<Rightarrow> b | Some n \<Rightarrow> n)"

text \<open>
  The constructor: each setting comes from the configuration object, else from the
  process environment, else from a built-in default. Nothing compares the two secrets.
\<close>

definition constructor :: "TokenServiceConfig option \<Rightarrow> (string \<Rightarrow> string option)
    \<Rightarrow> (string \<Rightarrow> nat option) \<Rightarrow> TokenService" where
  "constructor config env env_span =
     \<lparr> accessSecret =
         js_or (Option.bind config config_accessSecret)
           (js_or (env ''JWT_ACCESS_SECRET'') ''access-secret-change-me''),
       refreshSecret =
         js_or (Option.bind config config_refreshSecret)
           (js_or (env ''JWT_REFRESH_SECRET'') ''refresh-secret-change-me''),
       accessExpiresIn =
         js_or_span (Option.bind config config_accessExpiresIn)
           (js_or_span (env_span ''JWT_ACCESS_EXPIRES_IN'') 900),
       refreshExpiresIn =
         js_or_span (Option.bind config config_refreshExpiresIn)
           (js_or_span (env_span ''JWT_REFRESH_EXPIRES_IN'') 604800) \<rparr>"

record TokenSubject =
  userId :: string

record AccessTokenPayload = TokenSubject +
  email :: string
  roleIds :: "string list"
  permissions :: "string list"

record RefreshTokenPayload = TokenSubject +
  sessionId :: string
  jti :: string

definition generateAccessToken :: "TokenService \<Rightarrow> nat \<Rightarrow> AccessTokenPayload \<Rightarrow> token" where
  "generateAccessToken ts clock p =
     jwt_sign (AccessClaims (userId p) (email p) (roleIds p) (permissions p))
       (accessSecret ts) (accessExpiresIn ts) ''sogas-rh'' ''sogas-rh-api'' clock"

definition generateRefreshToken :: "TokenService \<Rightarrow> nat \<Rightarrow> RefreshTokenPayload \<Rightarrow> token" where
  "generateRefreshToken ts clock p =
     jwt_sign (RefreshClaims (userId p) (sessionId p) (jti p))
       (refreshSecret ts) (refreshExpiresIn ts) ''sogas-rh'' ''sogas-rh-api'' clock"

text \<open>
  The \<^verbatim>\<open>catch\<close> block shared by both verifiers: an expired token becomes
  \<^verbatim>\<open>TOKEN_EXPIRED\<close>, any other library error \<^verbatim>\<open>INVALID_TOKEN\<close>, and
  everything else is thrown again as it is.
\<close>

definition verify_catch :: "exn \<Rightarrow> exn" where
  "verify_catch error =
     (if instanceof_TokenExpiredError error then Error ''TOKEN_EXPIRED''
      else if instanceof_JsonWebTokenError error then Error ''INVALID_TOKEN''
      else error)"

definition verifyAccessToken :: "TokenService \<Rightarrow> nat \<Rightarrow> token \<Rightarrow> exn + AccessTokenPayload" where
  "verifyAccessToken ts clock t =
     (case jwt_verify t (accessSecret ts) ''sogas-rh'' ''sogas-rh-api'' clock of
        Inl error \<Rightarrow> Inl (verify_catch error)
      | Inr decoded \<Rightarrow>
          if type_of decoded \<noteq> ''access''
          then Inl (verify_catch (Error ''Invalid token type''))
          else (case decoded of
                  AccessClaims sub em rs ps \<Rightarrow>
                    Inr \<lparr> userId = sub, email = em, roleIds = rs, permissions = ps \<rparr>
                | RefreshClaims sub sid j \<Rightarrow>
                    Inl (verify_catch (Error ''Invalid token type''))))"

definition verifyRefreshToken :: "TokenService \<Rightarrow> nat \<Rightarrow> token \<Rightarrow> exn + RefreshTokenPayload" where
  "verifyRefreshToken ts clock t =
     (case jwt_verify t (refreshSecret ts) ''sogas-rh'' ''sogas-rh-api'' clock of
        Inl error \<Rightarrow> Inl (verify_catch error)
      | Inr decoded \<Rightarrow>
          if type_of decoded \<noteq> ''refresh''
          then Inl (verify_catch (Error ''Invalid token type''))
          else (case decoded of
                  RefreshClaims sub sid j \<Rightarrow>
                    Inr \<lparr> userId = sub, sessionId = sid, jti = j \<rparr>
                | AccessClaims sub em rs ps \<Rightarrow>
                    Inl (verify_catch (Error ''Invalid token type''))))"

section \<open>Records of the stores\<close>

record UserRecord =
  user_id :: string
  user_email :: string
  passwordHash :: string
  user_roleIds :: "string list"
  user_permissions :: "string list"

record SessionRecord =
  session_id :: string
  session_userId :: string
  currentRefreshJti :: string
  createdAt :: nat
  revokedAt :: "nat option"

text \<open>
  The session table is keyed by its primary key \<^verbatim>\<open>id\<close>; a row holds the other
  columns. The revoked-token table is the set of its unique \<^verbatim>\<open>jti\<close> values.
  Timestamps are milliseconds.
\<close>

record SessionRow =
  row_userId :: string
  row_currentRefreshJti :: string
  row_createdAt :: nat
  row_revokedAt :: "nat option"

record db =
  sessions :: "string \<rightharpoonup> SessionRow"
  revokedTokens :: "string set"

definition toSessionRecord :: "string \<Rightarrow> SessionRow \<Rightarrow> SessionRecord" where
  "toSessionRecord sid row =
     \<lparr> session_id = sid, session_userId = row_userId row,
       currentRefreshJti = row_currentRefreshJti row,
       createdAt = row_createdAt row, revokedAt = row_revokedAt row \<rparr>"

section \<open>PrismaSessionStore\<close>

text \<open>
  \<^verbatim>\<open>create\<close> inserts a row under the identifier the database generates (\<open>newId\<close>);
  an identifier already in use violates the primary key and the client throws.
  \<^verbatim>\<open>update\<close> throws when no row has the identifier. A store operation that
  throws leaves the database as it was.
\<close>

definition sessionStore_create :: "db \<Rightarrow> string \<Rightarrow> nat \<Rightarrow> string \<Rightarrow> string
    \<Rightarrow> exn + (SessionRecord \<times> db)" where
  "sessionStore_create d newId clock uid refreshJti =
     (if newId \<in> dom (sessions d) then Inl (PrismaClientKnownRequestError ''P2002'')
      else
        let row = \<lparr> row_userId = uid, row_currentRefreshJti = refreshJti,
                    row_createdAt = clock, row_revokedAt = None \<rparr>
        in Inr (toSessionRecord newId row, d\<lparr> sessions := (sessions d)(newId \<mapsto> row) \<rparr>))"

definition sessionStore_get :: "db \<Rightarrow> string \<Rightarrow> SessionRecord option" where
  "sessionStore_get d sid = map_option (toSessionRecord sid) (sessions d sid)"

definition sessionStore_setRefreshJti :: "db \<Rightarrow> string \<Rightarrow> string \<Rightarrow> exn + db" where
  "sessionStore_setRefreshJti d sid newJti =
     (case sessions d sid of
        None \<Rightarrow> Inl (PrismaClientKnownRequestError ''P2025'')
      | Some row \<Rightarrow>
          Inr (d\<lparr> sessions := (sessions d)(sid \<mapsto> row\<lparr> row_currentRefreshJti := newJti \<rparr>) \<rparr>))"

definition sessionStore_revoke :: "db \<Rightarrow> nat \<Rightarrow> string \<Rightarrow> exn + db" where
  "sessionStore_revoke d clock sid =
     (case sessions d sid of
        None \<Rightarrow> Inl (PrismaClientKnownRequestError ''P2025'')
      | Some row \<Rightarrow>
          Inr (d\<lparr> sessions := (sessions d)(sid \<mapsto> row\<lparr> row_revokedAt := Some clock \<rparr>) \<rparr>))"

section \<open>PrismaRevocationStore\<close>

definition revocationStore_isRevoked :: "db \<Rightarrow> string \<Rightarrow> bool" where
  "revocationStore_isRevoked d j = (j \<in> revokedTokens d)"

definition revocationStore_revoke :: "db \<Rightarrow> string \<Rightarrow> db" where
  "revocationStore_revoke d j = d\<lparr> revokedTokens := insert j (revokedTokens d) \<rparr>"

section \<open>AuthService\<close>

text \<open>
  The dependencies of the service. The user repository is the interface the service is
  written against (\<^verbatim>\<open>findByEmail\<close>); the hash service is its \<^verbatim>\<open>verify\<close>
  function; token and hash service are optional, as in the source.
\<close>

record deps =
  userRepository_findByEmail :: "string \<Rightarrow> UserRecord option"
  tokenService :: "TokenService option"
  hashService_verify :: "(string \<Rightarrow> string \<Rightarrow> bool) option"

text \<open>
  What a call reads from its surroundings: the clock (\<^verbatim>\<open>Date.now()\<close>), the value
  of \<^verbatim>\<open>crypto.randomUUID()\<close>, and the identifier the database would give a new
  session row.
\<close>

record runtime =
  now :: nat
  randomUUID :: string
  newSessionId :: string

record UserSummary =
  summary_id :: string
  summary_email :: string
  summary_roleIds :: "string list"
  summary_permissions :: "string list"

record RefreshResponse =
  accessToken :: token
  refreshToken :: token

record LoginResponse =
  user :: UserSummary
  tokens :: RefreshResponse

definition loginWithPassword :: "deps \<Rightarrow> db \<Rightarrow> runtime \<Rightarrow> string \<Rightarrow> string
    \<Rightarrow> (exn + LoginResponse) \<times> db" where
  "loginWithPassword dp d rt em password =
     (case hashService_verify dp of
        None \<Rightarrow> (Inl (Error ''HashService not configured''), d)
      | Some hash_verify \<Rightarrow>
     (case tokenService dp of
        None \<Rightarrow> (Inl (Error ''TokenService not configured''), d)
      | Some ts \<Rightarrow>
     (case userRepository_findByEmail dp em of
        None \<Rightarrow> (Inl (Error ''INVALID_CREDENTIALS''), d)
      | Some u \<Rightarrow>
          if \<not> hash_verify password (passwordHash u)
          then (Inl (Error ''INVALID_CREDENTIALS''), d)
          else
            let refreshJti = randomUUID rt in
            (case sessionStore_create d (newSessionId rt) (now rt) (user_id u) refreshJti of
               Inl e \<Rightarrow> (Inl e, d)
             | Inr (session, d') \<Rightarrow>
                 (Inr \<lparr> user = \<lparr> summary_id = user_id u, summary_email = user_email u,
                                 summary_roleIds = user_roleIds u,
                                 summary_permissions = user_permissions u \<rparr>,
                        tokens = \<lparr> accessToken = generateAccessToken ts (now rt)
                                     \<lparr> userId = user_id u, email = user_email u,
                                       roleIds = user_roleIds u,
                                       permissions = user_permissions u \<rparr>,
                                   refreshToken = generateRefreshToken ts (now rt)
                                     \<lparr> userId = user_id u, sessionId = session_id session,
                                       jti = refreshJti \<rparr> \<rparr> \<rparr>, d')))))"

text \<open>
  \<^verbatim>\<open>refreshTokens\<close>, step by step as the source numbers them. The user is looked
  up with \<^verbatim>\<open>findByEmail(payload.userId)\<close> (step 6) before the presented
  \<^verbatim>\<open>jti\<close> is revoked (step 7).
\<close>

definition refreshTokens :: "deps \<Rightarrow> db \<Rightarrow> runtime \<Rightarrow> token \<Rightarrow> (exn + RefreshResponse) \<times> db" where
  "refreshTokens dp d rt t =
     (case tokenService dp of
        None \<Rightarrow> (Inl (Error ''TokenService not configured''), d)
      | Some ts \<Rightarrow>
     (case verifyRefreshToken ts (now rt) t of
        Inl e \<Rightarrow> (Inl (Error ''INVALID_TOKEN''), d)
      | Inr p \<Rightarrow>
          if revocationStore_isRevoked d (jti p) then (Inl (Error ''TOKEN_REVOKED''), d)
          else
     (case sessionStore_get d (sessionId p) of
        None \<Rightarrow> (Inl (Error ''SESSION_NOT_FOUND''), d)
      | Some session \<Rightarrow>
          if revokedAt session \<noteq> None then (Inl (Error ''SESSION_REVOKED''), d)
          else if currentRefreshJti session \<noteq> jti p then
            (case sessionStore_revoke d (now rt) (session_id session) of
               Inl e \<Rightarrow> (Inl e, d)
             | Inr d1 \<Rightarrow>
                 (Inl (Error ''TOKEN_REUSE_DETECTED''), revocationStore_revoke d1 (jti p)))
          else
     (case userRepository_findByEmail dp (userId p) of
        None \<Rightarrow> (Inl (Error ''USER_NOT_FOUND''), d)
      | Some u \<Rightarrow>
          let d1 = revocationStore_revoke d (jti p);
              newRefreshJti = randomUUID rt
          in (case sessionStore_setRefreshJti d1 (session_id session) newRefreshJti of
                Inl e \<Rightarrow> (Inl e, d1)
              | Inr d2 \<Rightarrow>
                  (Inr \<lparr> accessToken = generateAccessToken ts (now rt)
                           \<lparr> userId = user_id u, email = user_email u,
                             roleIds = user_roleIds u, permissions = user_permissions u \<rparr>,
                         refreshToken = generateRefreshToken ts (now rt)
                           \<lparr> userId = user_id u, sessionId = session_id session,
                             jti = newRefreshJti \<rparr> \<rparr>, d2))))))"

definition logout :: "db \<Rightarrow> runtime \<Rightarrow> string \<Rightarrow> (exn + unit) \<times> db" where
  "logout d rt sid =
     (case sessionStore_get d sid of
        None \<Rightarrow> (Inr (), d)
      | Some session \<Rightarrow>
          (case sessionStore_revoke d (now rt) sid of
             Inl e \<Rightarrow> (Inl e, d)
           | Inr d1 \<Rightarrow>
               if currentRefreshJti session \<noteq> []
               then (Inr (), revocationStore_revoke d1 (currentRefreshJti session))
               else (Inr (), d1)))"

definition logoutWithToken :: "deps \<Rightarrow> db \<Rightarrow> runtime \<Rightarrow> token \<Rightarrow> (exn + unit) \<times> db" where
  "logoutWithToken dp d rt t =
     (case tokenService dp of
        None \<Rightarrow> (Inl (Error ''TokenService not configured''), d)
      | Some ts \<Rightarrow>
          (case verifyRefreshToken ts (now rt) t of
             Inl e \<Rightarrow> (Inr (), d)
           | Inr p \<Rightarrow>
               (case logout d rt (sessionId p) of
                  (Inl e, d') \<Rightarrow> (Inr (), d')
                | (Inr u, d') \<Rightarrow> (Inr (), d'))))"

section \<open>Boundary handlers\<close>

text \<open>
  A field of a JSON request body: missing, a string, or a value of another type, of
  which only the truthiness matters. A refresh token is a string too; the only empty
  one is \<open>Malformed []\<close>.
\<close>

datatype 'a jsvalue = Undefined | JString 'a | NonString bool

fun truthy :: "('a \<Rightarrow> bool) \<Rightarrow> 'a jsvalue \<Rightarrow> bool" where
  "truthy is_empty Undefined = False"
| "truthy is_empty (JString s) = (\<not> is_empty s)"
| "truthy is_empty (NonString b) = b"

fun is_string :: "'a jsvalue \<Rightarrow> bool" where
  "is_string (JString s) = True"
| "is_string v = False"

definition empty_string :: "string \<Rightarrow> bool" where
  "empty_string s = (s = [])"

definition empty_token :: "token \<Rightarrow> bool" where
  "empty_token t = (t = Malformed [])"

record body =
  body_email :: "string jsvalue"
  body_password :: "string jsvalue"
  body_refreshToken :: "token jsvalue"
  body_sessionId :: "string jsvalue"

datatype json =
    ErrorJson string string
  | LoginJson RefreshResponse UserSummary
  | RefreshJson token token
  | SuccessJson bool
  | UnauthorizedJson string string

record response =
  status :: nat
  json :: json

definition login_catch :: "exn \<Rightarrow> response" where
  "login_catch error =
     (if message error = ''INVALID_CREDENTIALS''
      then \<lparr> status = 401, json = ErrorJson ''INVALID_CREDENTIALS'' ''Invalid email or password'' \<rparr>
      else \<lparr> status = 400, json = ErrorJson ''BAD_REQUEST'' ''Authentication failed'' \<rparr>)"

definition login :: "deps \<Rightarrow> db \<Rightarrow> runtime \<Rightarrow> body \<Rightarrow> response \<times> db" where
  "login dp d rt b =
     (let em = body_email b; password = body_password b in
      if \<not> truthy empty_string em \<or> \<not> truthy empty_string password
         \<or> \<not> is_string em \<or> \<not> is_string password
      then (\<lparr> status = 400,
              json = ErrorJson ''BAD_REQUEST'' ''Email and password are required'' \<rparr>, d)
      else (case (em, password) of
              (JString e, JString pw) \<Rightarrow>
                (case loginWithPassword dp d rt e pw of
                   (Inr result, d') \<Rightarrow>
                     (\<lparr> status = 200, json = LoginJson (tokens result) (user result) \<rparr>, d')
                 | (Inl error, d') \<Rightarrow> (login_catch error, d'))
            | _ \<Rightarrow> (\<lparr> status = 400,
                      json = ErrorJson ''BAD_REQUEST'' ''Email and password are required'' \<rparr>, d)))"

definition refresh_catch :: "exn \<Rightarrow> response" where
  "refresh_catch error =
     (if message error = ''TOKEN_EXPIRED''
      then \<lparr> status = 401, json = ErrorJson ''TOKEN_EXPIRED'' ''Refresh token expired'' \<rparr>
      else if message error = ''TOKEN_REVOKED'' \<or> message error = ''SESSION_REVOKED''
      then \<lparr> status = 401, json = ErrorJson ''TOKEN_REVOKED'' ''Token has been revoked'' \<rparr>
      else if message error = ''TOKEN_REUSE_DETECTED''
      then \<lparr> status = 401,
             json = ErrorJson ''TOKEN_REUSE_DETECTED'' ''Token reuse detected - session revoked'' \<rparr>
      else if message error = ''INVALID_TOKEN''
      then \<lparr> status = 401, json = ErrorJson ''INVALID_TOKEN'' ''Invalid refresh token'' \<rparr>
      else \<lparr> status = 400, json = ErrorJson ''BAD_REQUEST'' ''Token refresh failed'' \<rparr>)"

definition refresh :: "deps \<Rightarrow> db \<Rightarrow> runtime \<Rightarrow> body \<Rightarrow> response \<times> db" where
  "refresh dp d rt b =
     (case body_refreshToken b of
        JString t \<Rightarrow>
          if empty_token t
          then (\<lparr> status = 400,
                  json = ErrorJson ''BAD_REQUEST'' ''Refresh token is required'' \<rparr>, d)
          else (case refreshTokens dp d rt t of
                  (Inr result, d') \<Rightarrow>
                    (\<lparr> status = 200,
                       json = RefreshJson (accessToken result) (refreshToken result) \<rparr>, d')
                | (Inl error, d') \<Rightarrow> (refresh_catch error, d'))
      | _ \<Rightarrow> (\<lparr> status = 400,
                json = ErrorJson ''BAD_REQUEST'' ''Refresh token is required'' \<rparr>, d))"

text \<open>
  The logout handler answers \<^verbatim>\<open>200 {success: true}\<close> after the service call and
  again in its \<^verbatim>\<open>catch\<close> block.
\<close>

definition logout_handler :: "deps \<Rightarrow> db \<Rightarrow> runtime \<Rightarrow> body \<Rightarrow> response \<times> db" where
  "logout_handler dp d rt b =
     (let sid = body_sessionId b; rtok = body_refreshToken b in
      if \<not> truthy empty_string sid \<and> \<not> truthy empty_token rtok
      then (\<lparr> status = 400,
              json = ErrorJson ''BAD_REQUEST'' ''Either sessionId or refreshToken is required'' \<rparr>, d)
      else if truthy empty_string sid \<and> \<not> is_string sid
      then (\<lparr> status = 400, json = ErrorJson ''BAD_REQUEST'' ''Invalid sessionId format'' \<rparr>, d)
      else if truthy empty_token rtok \<and> \<not> is_string rtok
      then (\<lparr> status = 400, json = ErrorJson ''BAD_REQUEST'' ''Invalid refreshToken format'' \<rparr>, d)
      else
        (case (if truthy empty_token rtok
               then (case rtok of JString t \<Rightarrow> logoutWithToken dp d rt t | _ \<Rightarrow> (Inr (), d))
               else if truthy empty_string sid
               then (case sid of JString s \<Rightarrow> logout d rt s | _ \<Rightarrow> (Inr (), d))
               else (Inr (), d)) of
           (Inr u, d') \<Rightarrow> (\<lparr> status = 200, json = SuccessJson True \<rparr>, d')
         | (Inl error, d') \<Rightarrow> (\<lparr> status = 200, json = SuccessJson True \<rparr>, d')))"

text \<open>
  The authentication middleware from the point where it holds the bearer token: the
  verified claims go on to the next handler, a thrown error is mapped to a 401 response.
\<close>

definition requireAuth_catch :: "exn \<Rightarrow> response" where
  "requireAuth_catch error =
     (if message error = ''TOKEN_EXPIRED''
      then \<lparr> status = 401, json = UnauthorizedJson ''Unauthorized'' ''Token expired'' \<rparr>
      else if message error = ''INVALID_TOKEN''
      then \<lparr> status = 401, json = UnauthorizedJson ''Unauthorized'' ''Invalid token'' \<rparr>
      else \<lparr> status = 401, json = UnauthorizedJson ''Unauthorized'' ''Authentication failed'' \<rparr>)"

definition requireAuth :: "TokenService \<Rightarrow> nat \<Rightarrow> token \<Rightarrow> response + AccessTokenPayload" where
  "requireAuth ts clock t =
     (case verifyAccessToken ts clock t of
        Inr p \<Rightarrow> Inr p
      | Inl error \<Rightarrow> Inl (requireAuth_catch error))"

section \<open>Sequences of calls\<close>

text \<open>
  The service is driven by a sequence of calls, each with what it reads from its
  surroundings. \<open>run\<close> gives the database after the whole sequence, whatever the calls
  returned.
\<close>

datatype call =
    Login string string
  | Refresh token
  | Logout string
  | LogoutWithToken token

fun step :: "deps \<Rightarrow> db \<Rightarrow> runtime \<times> call \<Rightarrow> db" where
  "step dp d (rt, Login em password) = snd (loginWithPassword dp d rt em password)"
| "step dp d (rt, Refresh t) = snd (refreshTokens dp d rt t)"
| "step dp d (rt, Logout sid) = snd (logout d rt sid)"
| "step dp d (rt, LogoutWithToken t) = snd (logoutWithToken dp d rt t)"

definition run :: "deps \<Rightarrow> db \<Rightarrow> (runtime \<times> call) list \<Rightarrow> db" where
  "run dp d cs = foldl (step dp) d cs"

text \<open>
  \<open>refresh_chain\<close> performs sequential refreshes, each presenting the refresh token the
  previous one issued, and collects the issued refresh tokens in order. It stops with
  \<open>None\<close> as soon as one refresh fails.
\<close>

fun refresh_chain :: "deps \<Rightarrow> db \<Rightarrow> token \<Rightarrow> runtime list \<Rightarrow> (token list \<times> db) option" where
  "refresh_chain dp d t [] = Some ([], d)"
| "refresh_chain dp d t (rt # rts) =
     (case refreshTokens dp d rt t of
        (Inl e, d') \<Rightarrow> None
      | (Inr result, d') \<Rightarrow>
          (case refresh_chain dp d' (refreshToken result) rts of
             None \<Rightarrow> None
           | Some (issued, d'') \<Rightarrow> Some (refreshToken result # issued, d'')))"

text \<open>Reading a claim of a token without verifying it, as \<^verbatim>\<open>jwt.decode\<close> does.\<close>

fun token_jti :: "token \<Rightarrow> string option" where
  "token_jti (Jwt j) = (case payload j of RefreshClaims sub sid i \<Rightarrow> Some i | _ \<Rightarrow> None)"
| "token_jti (Malformed s) = None"

fun token_sessionId :: "token \<Rightarrow> string option" where
  "token_sessionId (Jwt j) = (case payload j of RefreshClaims sub sid i \<Rightarrow> Some sid | _ \<Rightarrow> None)"
| "token_sessionId (Malformed s) = None"

text \<open>A session is dead once its row carries a revocation timestamp.\<close>

definition session_revoked :: "db \<Rightarrow> string \<Rightarrow> bool" where
  "session_revoked d sid =
     (case sessions d sid of None \<Rightarrow> False | Some row \<Rightarrow> row_revokedAt row \<noteq> None)"

section \<open>Concrete configurations\<close>

text \<open>
  A token service built with no configuration and an empty environment, and one built
  with the same secret for both kinds of token.
\<close>

definition ex_ts :: TokenService where
  "ex_ts = constructor None (\<lambda>v. None) (\<lambda>v. None)"

definition shared_ts :: TokenService where
  "shared_ts = constructor
     (Some \<lparr> config_accessSecret = Some ''k'', config_refreshSecret = Some ''k'',
             config_accessExpiresIn = None, config_refreshExpiresIn = None \<rparr>)
     (\<lambda>v. None) (\<lambda>v. None)"

text \<open>
  Two user repositories. In the first the only user has an identifier equal to the
  email, so that \<^verbatim>\<open>findByEmail(payload.userId)\<close> finds the row again at refresh.
  In the second the user has the identifier \<^verbatim>\<open>u1\<close>, which is nobody's email.
\<close>

definition ex_user :: UserRecord where
  "ex_user = \<lparr> user_id = ''a@x.com'', user_email = ''a@x.com'', passwordHash = ''hash:P@ss1'',
               user_roleIds = [''r1''], user_permissions = [''employee.read''] \<rparr>"

text \<open>A stand-in for the password hash: the hash of \<open>pw\<close> is \<^verbatim>\<open>hash:\<close> followed by \<open>pw\<close>.\<close>

definition ex_hash_verify :: "string \<Rightarrow> string \<Rightarrow> bool" where
  "ex_hash_verify pw h = (h = ''hash:'' @ pw)"

definition ex_deps :: deps where
  "ex_deps =
     \<lparr> userRepository_findByEmail = (\<lambda>e. if e = ''a@x.com'' then Some ex_user else None),
       tokenService = Some ex_ts,
       hashService_verify = Some ex_hash_verify \<rparr>"

definition ghost_user :: UserRecord where
  "ghost_user = \<lparr> user_id = ''u1'', user_email = ''b@x.com'', passwordHash = ''hash:P@ss1'',
                  user_roleIds = [''r1''], user_permissions = [''employee.read''] \<rparr>"

definition ghost_deps :: deps where
  "ghost_deps =
     \<lparr> userRepository_findByEmail = (\<lambda>e. if e = ''b@x.com'' then Some ghost_user else None),
       tokenService = Some ex_ts,
       hashService_verify = Some ex_hash_verify \<rparr>"

definition ex_rt :: "nat \<Rightarrow> string \<Rightarrow> runtime" where
  "ex_rt clock uuid = \<lparr> now = clock, randomUUID = uuid, newSessionId = ''s1'' \<rparr>"

definition ex_db0 :: db where
  "ex_db0 = \<lparr> sessions = Map.empty, revokedTokens = {} \<rparr>"

text \<open>
  The database holding the single session \<^verbatim>\<open>s1\<close> of user \<open>uid\<close>, created at
  clock 0, with current refresh identifier \<open>j\<close>, revocation timestamp \<open>r\<close> and the
  given ledger; and the refresh token of that session with identifier \<open>j\<close>.
\<close>

definition ex_state :: "string \<Rightarrow> string \<Rightarrow> nat option \<Rightarrow> string set \<Rightarrow> db" where
  "ex_state uid j r ledger =
     \<lparr> sessions = [''s1'' \<mapsto> \<lparr> row_userId = uid, row_currentRefreshJti = j,
                                row_createdAt = 0, row_revokedAt = r \<rparr>],
       revokedTokens = ledger \<rparr>"

definition ex_token :: "string \<Rightarrow> nat \<Rightarrow> string \<Rightarrow> token" where
  "ex_token uid clock j =
     generateRefreshToken ex_ts clock \<lparr> userId = uid, sessionId = ''s1'', jti = j \<rparr>"

definition ex_access_payload :: AccessTokenPayload where
  "ex_access_payload = \<lparr> userId = ''a@x.com'', email = ''a@x.com'', roleIds = [''r1''],
                         permissions = [''employee.read''] \<rparr>"

definition ex_login_response :: LoginResponse where
  "ex_login_response =
     \<lparr> user = \<lparr> summary_id = ''a@x.com'', summary_email = ''a@x.com'',
                 summary_roleIds = [''r1''], summary_permissions = [''employee.read''] \<rparr>,
       tokens = \<lparr> accessToken = generateAccessToken ex_ts 0 ex_access_payload,
                   refreshToken = ex_token ''a@x.com'' 0 ''j1'' \<rparr> \<rparr>"

definition ex_body :: "string \<Rightarrow> string \<Rightarrow> body" where
  "ex_body em password =
     \<lparr> body_email = JString em, body_password = JString password,
       body_refreshToken = Undefined, body_sessionId = Undefined \<rparr>"

definition ex_logout_body :: "string \<Rightarrow> body" where
  "ex_logout_body sid =
     \<lparr> body_email = Undefined, body_password = Undefined,
       body_refreshToken = Undefined, body_sessionId = JString sid \<rparr>"

section \<open>Unfolding and evaluation\<close>

lemma ex_ts_simps:
  "accessSecret ex_ts = ''access-secret-change-me''"
  "refreshSecret ex_ts = ''refresh-secret-change-me''"
  "accessExpiresIn ex_ts = 900"
  "refreshExpiresIn ex_ts = 604800"
  by (simp_all add: ex_ts_def constructor_def js_or_def js_or_span_def)

lemma shared_ts_simps:
  "accessSecret shared_ts = ''k''"
  "refreshSecret shared_ts = ''k''"
  "accessExpiresIn shared_ts = 900"
  "refreshExpiresIn shared_ts = 604800"
  by (simp_all add: shared_ts_def constructor_def js_or_def js_or_span_def)

lemmas ex_defs = ex_login_response_def ex_state_def ex_token_def ex_deps_def ex_db0_def
  ex_hash_verify_def
  ex_rt_def ex_user_def ghost_deps_def ghost_user_def ex_access_payload_def ex_ts_simps

lemmas token_defs = verifyRefreshToken_def verifyAccessToken_def jwt_verify_def
  verify_catch_def generateRefreshToken_def generateAccessToken_def jwt_sign_def

lemmas store_defs = sessionStore_create_def sessionStore_get_def sessionStore_setRefreshJti_def
  sessionStore_revoke_def revocationStore_isRevoked_def revocationStore_revoke_def
  toSessionRecord_def

lemmas op_defs = loginWithPassword_def refreshTokens_def logout_def store_defs token_defs
  Let_def

section \<open>What a successful call did\<close>

lemma refreshTokens_Inr:
  assumes "refreshTokens dp d rt t = (Inr r, d')"
  shows "\<exists>ts p row u.
           tokenService dp = Some ts \<and> verifyRefreshToken ts (now rt) t = Inr p \<and>
           jti p \<notin> revokedTokens d \<and> sessions d (sessionId p) = Some row \<and>
           row_revokedAt row = None \<and> row_currentRefreshJti row = jti p \<and>
           userRepository_findByEmail dp (userId p) = Some u \<and>
           d' = \<lparr> sessions = (sessions d)(sessionId p \<mapsto>
                               row\<lparr> row_currentRefreshJti := randomUUID rt \<rparr>),
                  revokedTokens = insert (jti p) (revokedTokens d) \<rparr> \<and>
           refreshToken r = generateRefreshToken ts (now rt)
             \<lparr> userId = user_id u, sessionId = sessionId p, jti = randomUUID rt \<rparr>"
  using assms
  by (auto simp: refreshTokens_def store_defs Let_def
      split: option.splits sum.splits if_splits)

lemma loginWithPassword_Inr:
  assumes "loginWithPassword dp d rt em pw = (Inr r, d')"
  shows "\<exists>ts u. tokenService dp = Some ts \<and>
           userRepository_findByEmail dp em = Some u \<and>
           sessions d (newSessionId rt) = None \<and>
           d' = d\<lparr> sessions := (sessions d)(newSessionId rt \<mapsto>
                  \<lparr> row_userId = user_id u, row_currentRefreshJti = randomUUID rt,
                    row_createdAt = now rt, row_revokedAt = None \<rparr>) \<rparr> \<and>
           refreshToken (tokens r) = generateRefreshToken ts (now rt)
             \<lparr> userId = user_id u, sessionId = newSessionId rt, jti = randomUUID rt \<rparr>"
  using assms
  by (auto simp: loginWithPassword_def sessionStore_create_def toSessionRecord_def Let_def
      split: option.splits sum.splits if_splits)

lemma verifyRefreshToken_Inr:
  assumes "verifyRefreshToken ts c t = Inr p"
  shows "token_jti t = Some (jti p) \<and> token_sessionId t = Some (sessionId p)"
  using assms
  by (auto simp: verifyRefreshToken_def jwt_verify_def verify_catch_def
      split: sum.splits token.splits if_splits claims.splits)

lemma token_claims_generateRefreshToken:
  "token_jti (generateRefreshToken ts c q) = Some (jti q)"
  "token_sessionId (generateRefreshToken ts c q) = Some (sessionId q)"
  by (simp_all add: generateRefreshToken_def jwt_sign_def)

section \<open>The ledger only grows\<close>

lemma refreshTokens_ledger_mono:
  "revokedTokens d \<subseteq> revokedTokens (snd (refreshTokens dp d rt t))"
  by (auto simp: refreshTokens_def sessionStore_revoke_def
      sessionStore_setRefreshJti_def revocationStore_revoke_def Let_def
      split: option.splits sum.splits if_splits)

lemma logout_ledger_mono:
  "revokedTokens d \<subseteq> revokedTokens (snd (logout d rt sid))"
  by (auto simp: logout_def sessionStore_revoke_def revocationStore_revoke_def
      split: option.splits sum.splits if_splits)

lemma logoutWithToken_ledger_mono:
  "revokedTokens d \<subseteq> revokedTokens (snd (logoutWithToken dp d rt t))"
  using logout_ledger_mono
  by (auto simp: logoutWithToken_def split: option.splits sum.splits prod.splits)
    (metis snd_conv subsetD)+

lemma loginWithPassword_ledger:
  "revokedTokens (snd (loginWithPassword dp d rt em pw)) = revokedTokens d"
  by (auto simp: loginWithPassword_def sessionStore_create_def Let_def
      split: option.splits sum.splits if_splits)

lemma step_ledger_mono: "revokedTokens d \<subseteq> revokedTokens (step dp d c)"
proof (cases c)
  case (Pair rt k)
  then show ?thesis
    using refreshTokens_ledger_mono logout_ledger_mono logoutWithToken_ledger_mono
    by (cases k) (simp_all add: loginWithPassword_ledger)
qed

lemma run_ledger_mono: "revokedTokens d \<subseteq> revokedTokens (run dp d cs)"
  unfolding run_def
proof (induction cs arbitrary: d)
  case Nil
  then show ?case by simp
next
  case (Cons c cs)
  have "revokedTokens d \<subseteq> revokedTokens (step dp d c)" by (rule step_ledger_mono)
  also have "\<dots> \<subseteq> revokedTokens (foldl (step dp) (step dp d c) cs)" by (rule Cons.IH)
  finally show ?case by simp
qed

section \<open>A revoked session stays revoked\<close>

lemma refreshTokens_keeps_revoked:
  "session_revoked d sid \<Longrightarrow> session_revoked (snd (refreshTokens dp d rt t)) sid"
  by (auto simp: session_revoked_def refreshTokens_def store_defs Let_def
      split: option.splits sum.splits if_splits)

lemma logout_keeps_revoked:
  "session_revoked d sid \<Longrightarrow> session_revoked (snd (logout d rt sid')) sid"
  by (auto simp: session_revoked_def logout_def store_defs
      split: option.splits sum.splits if_splits)

lemma logoutWithToken_keeps_revoked:
  "session_revoked d sid \<Longrightarrow> session_revoked (snd (logoutWithToken dp d rt t)) sid"
  using logout_keeps_revoked [of d sid]
  by (auto simp: logoutWithToken_def split: option.splits sum.splits prod.splits)
    (metis snd_conv)+

lemma loginWithPassword_keeps_revoked:
  "session_revoked d sid \<Longrightarrow> session_revoked (snd (loginWithPassword dp d rt em pw)) sid"
  by (auto simp: session_revoked_def loginWithPassword_def sessionStore_create_def Let_def
      split: option.splits sum.splits if_splits)

lemma step_keeps_revoked: "session_revoked d sid \<Longrightarrow> session_revoked (step dp d c) sid"
proof (cases c)
  case (Pair rt k)
  assume "session_revoked d sid"
  with Pair show ?thesis
    by (cases k) (simp_all add: refreshTokens_keeps_revoked logout_keeps_revoked
        logoutWithToken_keeps_revoked loginWithPassword_keeps_revoked)
qed

lemma run_keeps_revoked: "session_revoked d sid \<Longrightarrow> session_revoked (run dp d cs) sid"
  unfolding run_def
  by (induction cs arbitrary: d) (simp_all add: step_keeps_revoked)

section \<open>Refreshes that cannot succeed\<close>

lemma refreshTokens_revoked_session_fails:
  assumes "session_revoked d sid" and "token_sessionId t = Some sid"
  shows "\<exists>e. fst (refreshTokens dp d rt t) = Inl e"
proof (cases "refreshTokens dp d rt t")
  case (Pair res d')
  show ?thesis
  proof (cases res)
    case (Inl e)
    with Pair show ?thesis by simp
  next
    case (Inr r)
    with Pair obtain ts p row where v: "verifyRefreshToken ts (now rt) t = Inr p"
      and s: "sessions d (sessionId p) = Some row" "row_revokedAt row = None"
      using refreshTokens_Inr by blast
    from v assms(2) have "sessionId p = sid" using verifyRefreshToken_Inr by fastforce
    with s assms(1) show ?thesis by (simp add: session_revoked_def)
  qed
qed

lemma refreshTokens_ledger_revoked_fails:
  assumes "token_jti t = Some j" and "j \<in> revokedTokens d"
  shows "(\<exists>e. fst (refreshTokens dp d rt t) = Inl e) \<and>
         (\<forall>ts p. tokenService dp = Some ts \<longrightarrow> verifyRefreshToken ts (now rt) t = Inr p \<longrightarrow>
            refreshTokens dp d rt t = (Inl (Error ''TOKEN_REVOKED''), d))"
proof -
  have a: "\<exists>e. fst (refreshTokens dp d rt t) = Inl e"
  proof (cases "refreshTokens dp d rt t")
    case (Pair res d')
    show ?thesis
    proof (cases res)
      case (Inl e)
      with Pair show ?thesis by simp
    next
      case (Inr r)
      with Pair obtain ts p where v: "verifyRefreshToken ts (now rt) t = Inr p"
        and s: "jti p \<notin> revokedTokens d"
        using refreshTokens_Inr by blast
      from v assms(1) have "jti p = j" using verifyRefreshToken_Inr by fastforce
      with s assms(2) show ?thesis by simp
    qed
  qed
  have b: "refreshTokens dp d rt t = (Inl (Error ''TOKEN_REVOKED''), d)"
    if "tokenService dp = Some ts" "verifyRefreshToken ts (now rt) t = Inr p" for ts p
  proof -
    from that(2) assms(1) have "jti p = j" using verifyRefreshToken_Inr by fastforce
    with that assms(2) show ?thesis
      by (simp add: refreshTokens_def revocationStore_isRevoked_def)
  qed
  from a b show ?thesis by blast
qed

section \<open>Sequential rotation\<close>

lemma refresh_chain_inv:
  assumes "refresh_chain dp d t rts = Some (issued, d2)"
    and "token_sessionId t = Some sid"
  shows "length issued = length rts \<and>
         (\<forall>x \<in> set issued. token_sessionId x = Some sid) \<and>
         revokedTokens d \<subseteq> revokedTokens d2 \<and>
         (rts \<noteq> [] \<longrightarrow>
            (\<exists>row. sessions d2 sid = Some row \<and>
                   token_jti (last issued) = Some (row_currentRefreshJti row)) \<and>
            (\<forall>x \<in> set (t # butlast issued).
               \<exists>j. token_jti x = Some j \<and> j \<in> revokedTokens d2))"
  using assms
proof (induction rts arbitrary: d t issued)
  case Nil
  then show ?case by simp
next
  case (Cons rt rts)
  from Cons.prems(1) obtain r d' where
    step: "refreshTokens dp d rt t = (Inr r, d')"
    by (auto split: prod.splits sum.splits option.splits)
  with Cons.prems(1) obtain issued' where
    rest: "refresh_chain dp d' (refreshToken r) rts = Some (issued', d2)"
    and issued: "issued = refreshToken r # issued'"
    by (auto split: prod.splits sum.splits option.splits)
  from refreshTokens_Inr [OF step] obtain ts p row and u :: UserRecord where
    v: "verifyRefreshToken ts (now rt) t = Inr p"
    and row: "sessions d (sessionId p) = Some row"
    and d': "d' = \<lparr> sessions = (sessions d)(sessionId p \<mapsto>
                                row\<lparr> row_currentRefreshJti := randomUUID rt \<rparr>),
                  revokedTokens = insert (jti p) (revokedTokens d) \<rparr>"
    and r: "refreshToken r = generateRefreshToken ts (now rt)
             \<lparr> userId = user_id u, sessionId = sessionId p, jti = randomUUID rt \<rparr>"
    by blast
  from v Cons.prems(2) have tj: "token_jti t = Some (jti p)" and sp: "sessionId p = sid"
    using verifyRefreshToken_Inr by fastforce+
  from r sp have rs: "token_sessionId (refreshToken r) = Some sid"
    and rj: "token_jti (refreshToken r) = Some (randomUUID rt)"
    by (simp_all add: token_claims_generateRefreshToken)
  note IH = Cons.IH [OF rest rs]
  have len: "length issued = length (rt # rts)" using IH issued by simp
  have sids: "\<forall>x \<in> set issued. token_sessionId x = Some sid" using IH issued rs by simp
  have mono: "revokedTokens d \<subseteq> revokedTokens d2" using IH d' by auto
  have jin: "jti p \<in> revokedTokens d2" using IH d' by auto
  have cur: "\<exists>row. sessions d2 sid = Some row \<and>
                   token_jti (last issued) = Some (row_currentRefreshJti row)"
  proof (cases "rts = []")
    case True
    with rest issued have "issued = [refreshToken r]" "d2 = d'" by simp_all
    with d' sp rj show ?thesis by simp
  next
    case False
    with IH have "issued' \<noteq> []" by auto
    with IH False issued show ?thesis by simp
  qed
  have led: "\<forall>x \<in> set (t # butlast issued).
               \<exists>j. token_jti x = Some j \<and> j \<in> revokedTokens d2"
  proof (cases "rts = []")
    case True
    with rest issued have "issued = [refreshToken r]" by simp
    with tj jin show ?thesis by simp
  next
    case False
    with IH have ne: "issued' \<noteq> []" by auto
    from IH False have "\<forall>x \<in> set (refreshToken r # butlast issued').
        \<exists>j. token_jti x = Some j \<and> j \<in> revokedTokens d2"
      by blast
    with ne issued tj jin show ?thesis by simp
  qed
  from len sids mono cur led show ?case by blast
qed

section \<open>Evaluation of the concrete runs\<close>

lemma ex_login:
  "loginWithPassword ex_deps ex_db0 (ex_rt 0 ''j1'') ''a@x.com'' ''P@ss1''
     = (Inr ex_login_response, ex_state ''a@x.com'' ''j1'' None {})"
  by (simp add: ex_defs op_defs)

lemma ex_login_token: "refreshToken (tokens ex_login_response) = ex_token ''a@x.com'' 0 ''j1''"
  by (simp add: ex_login_response_def)

lemma ex_refresh1:
  "refreshTokens ex_deps (ex_state ''a@x.com'' ''j1'' None {}) (ex_rt 1000 ''j2'')
       (ex_token ''a@x.com'' 0 ''j1'')
     = (Inr \<lparr> accessToken = generateAccessToken ex_ts 1000 ex_access_payload,
              refreshToken = ex_token ''a@x.com'' 1000 ''j2'' \<rparr>,
        ex_state ''a@x.com'' ''j2'' None {''j1''})"
  by (simp add: ex_defs op_defs)

lemma ex_refresh2:
  "refreshTokens ex_deps (ex_state ''a@x.com'' ''j2'' None {''j1''}) (ex_rt 2000 ''j3'')
       (ex_token ''a@x.com'' 1000 ''j2'')
     = (Inr \<lparr> accessToken = generateAccessToken ex_ts 2000 ex_access_payload,
              refreshToken = ex_token ''a@x.com'' 2000 ''j3'' \<rparr>,
        ex_state ''a@x.com'' ''j3'' None {''j1'', ''j2''})"
  by (auto simp add: ex_defs op_defs)

section \<open>Rotation and reuse detection\<close>

text \<open>
  C1, as amended. A session is created by \<open>loginWithPassword\<close> and then \<open>N \<ge> 1\<close>
  sequential refreshes succeed, each presenting the most recently issued refresh token.
  Then \<open>N\<close> refresh tokens were issued; the session's \<open>currentRefreshJti\<close> is the
  \<open>jti\<close> embedded in the last of them; the \<open>jti\<close> of the login token and of the
  \<open>N - 1\<close> earlier refresh tokens are in the revocation ledger; and presenting any of
  these consumed tokens again, after any further calls and at any time, never succeeds:
  it fails with \<^verbatim>\<open>TOKEN_REVOKED\<close> whenever the token still passes verification.
\<close>

theorem rotation_monotone_single_use:
  assumes "loginWithPassword dp d0 rt0 em pw = (Inr r0, d1)"
    and "refresh_chain dp d1 (refreshToken (tokens r0)) rts = Some (issued, d2)"
    and "rts \<noteq> []"
  shows "length issued = length rts \<and>
         (\<exists>sid s. token_sessionId (refreshToken (tokens r0)) = Some sid \<and>
                  sessionStore_get d2 sid = Some s \<and>
                  token_jti (last issued) = Some (currentRefreshJti s)) \<and>
         (\<forall>x \<in> set (refreshToken (tokens r0) # butlast issued).
            (\<exists>j. token_jti x = Some j \<and> revocationStore_isRevoked d2 j) \<and>
            (\<forall>cs rt. (\<exists>e. fst (refreshTokens dp (run dp d2 cs) rt x) = Inl e) \<and>
               (\<forall>ts p. tokenService dp = Some ts \<longrightarrow>
                    verifyRefreshToken ts (now rt) x = Inr p \<longrightarrow>
                    fst (refreshTokens dp (run dp d2 cs) rt x) = Inl (Error ''TOKEN_REVOKED''))))"
proof -
  from loginWithPassword_Inr [OF assms(1)] obtain ts and u :: UserRecord where
    "refreshToken (tokens r0) = generateRefreshToken ts (now rt0)
       \<lparr> userId = user_id u, sessionId = newSessionId rt0, jti = randomUUID rt0 \<rparr>"
    by blast
  then have sid: "token_sessionId (refreshToken (tokens r0)) = Some (newSessionId rt0)"
    by (simp add: token_claims_generateRefreshToken)
  note inv = refresh_chain_inv [OF assms(2) sid]
  from inv have len: "length issued = length rts" by simp
  from inv assms(3) obtain row where row: "sessions d2 (newSessionId rt0) = Some row"
    "token_jti (last issued) = Some (row_currentRefreshJti row)" by blast
  then have cur: "\<exists>sid s. token_sessionId (refreshToken (tokens r0)) = Some sid \<and>
                  sessionStore_get d2 sid = Some s \<and>
                  token_jti (last issued) = Some (currentRefreshJti s)"
    using sid by (simp add: sessionStore_get_def toSessionRecord_def)
  have led: "(\<exists>j. token_jti x = Some j \<and> revocationStore_isRevoked d2 j) \<and>
            (\<forall>cs rt. (\<exists>e. fst (refreshTokens dp (run dp d2 cs) rt x) = Inl e) \<and>
               (\<forall>ts p. tokenService dp = Some ts \<longrightarrow>
                    verifyRefreshToken ts (now rt) x = Inr p \<longrightarrow>
                    fst (refreshTokens dp (run dp d2 cs) rt x) = Inl (Error ''TOKEN_REVOKED'')))"
    if "x \<in> set (refreshToken (tokens r0) # butlast issued)" for x
  proof -
    from inv assms(3) that obtain j where j: "token_jti x = Some j" "j \<in> revokedTokens d2"
      by blast
    have "j \<in> revokedTokens (run dp d2 cs)" for cs
      using j(2) run_ledger_mono by blast
    then show ?thesis
      using j refreshTokens_ledger_revoked_fails [OF j(1)]
      by (simp add: revocationStore_isRevoked_def)
  qed
  from len cur led show ?thesis by blast
qed

text \<open>
  C1, an instance: login at clock 0, then two refreshes at clocks 1000 and 2000. The
  session ends with \<^verbatim>\<open>j3\<close>, the ledger holds \<^verbatim>\<open>j1\<close> and \<^verbatim>\<open>j2\<close>,
  and the login token presented once more at clock 3000 is answered
  \<^verbatim>\<open>TOKEN_REVOKED\<close>.
\<close>

theorem rotation_monotone_single_use_witness:
  "loginWithPassword ex_deps ex_db0 (ex_rt 0 ''j1'') ''a@x.com'' ''P@ss1''
     = (Inr ex_login_response, ex_state ''a@x.com'' ''j1'' None {}) \<and>
   refresh_chain ex_deps (ex_state ''a@x.com'' ''j1'' None {})
       (refreshToken (tokens ex_login_response)) [ex_rt 1000 ''j2'', ex_rt 2000 ''j3'']
     = Some ([ex_token ''a@x.com'' 1000 ''j2'', ex_token ''a@x.com'' 2000 ''j3''],
             ex_state ''a@x.com'' ''j3'' None {''j1'', ''j2''}) \<and>
   [ex_rt 1000 ''j2'', ex_rt 2000 ''j3''] \<noteq> [] \<and>
   (\<exists>s. sessionStore_get (ex_state ''a@x.com'' ''j3'' None {''j1'', ''j2''}) ''s1'' = Some s \<and>
        token_jti (ex_token ''a@x.com'' 2000 ''j3'') = Some (currentRefreshJti s)) \<and>
   revocationStore_isRevoked (ex_state ''a@x.com'' ''j3'' None {''j1'', ''j2''}) ''j1'' \<and>
   revocationStore_isRevoked (ex_state ''a@x.com'' ''j3'' None {''j1'', ''j2''}) ''j2'' \<and>
   fst (refreshTokens ex_deps (ex_state ''a@x.com'' ''j3'' None {''j1'', ''j2''})
          (ex_rt 3000 ''j4'') (ex_token ''a@x.com'' 0 ''j1'')) = Inl (Error ''TOKEN_REVOKED'')"
proof -
  let ?d2 = "ex_state ''a@x.com'' ''j3'' None {''j1'', ''j2''}"
  let ?issued = "[ex_token ''a@x.com'' 1000 ''j2'', ex_token ''a@x.com'' 2000 ''j3'']"
  have h1: "loginWithPassword ex_deps ex_db0 (ex_rt 0 ''j1'') ''a@x.com'' ''P@ss1''
     = (Inr ex_login_response, ex_state ''a@x.com'' ''j1'' None {})"
    by (rule ex_login)
  have h2: "refresh_chain ex_deps (ex_state ''a@x.com'' ''j1'' None {})
       (refreshToken (tokens ex_login_response)) [ex_rt 1000 ''j2'', ex_rt 2000 ''j3'']
     = Some (?issued, ?d2)"
    by (simp add: ex_login_token ex_refresh1 ex_refresh2)
  have h3: "[ex_rt 1000 ''j2'', ex_rt 2000 ''j3''] \<noteq> []" by simp
  note c = rotation_monotone_single_use [OF h1 h2 h3]
  have sid: "token_sessionId (refreshToken (tokens ex_login_response)) = Some ''s1''"
    by (simp add: ex_login_token ex_token_def token_claims_generateRefreshToken)
  from c sid have c1: "\<exists>s. sessionStore_get ?d2 ''s1'' = Some s \<and>
        token_jti (ex_token ''a@x.com'' 2000 ''j3'') = Some (currentRefreshJti s)"
    by auto
  have j1: "token_jti (ex_token ''a@x.com'' 0 ''j1'') = Some ''j1''"
    and j2: "token_jti (ex_token ''a@x.com'' 1000 ''j2'') = Some ''j2''"
    by (simp_all add: ex_token_def token_claims_generateRefreshToken)
  from c have x1: "(\<exists>j. token_jti (ex_token ''a@x.com'' 0 ''j1'') = Some j \<and>
                       revocationStore_isRevoked ?d2 j) \<and>
      (\<forall>cs rt. \<forall>ts p. tokenService ex_deps = Some ts \<longrightarrow>
          verifyRefreshToken ts (now rt) (ex_token ''a@x.com'' 0 ''j1'') = Inr p \<longrightarrow>
          fst (refreshTokens ex_deps (run ex_deps ?d2 cs) rt (ex_token ''a@x.com'' 0 ''j1''))
            = Inl (Error ''TOKEN_REVOKED''))"
    by (simp add: ex_login_token)
  from c have x2: "\<exists>j. token_jti (ex_token ''a@x.com'' 1000 ''j2'') = Some j \<and>
                       revocationStore_isRevoked ?d2 j"
    by (simp add: ex_login_token)
  from x1 j1 have c2: "revocationStore_isRevoked ?d2 ''j1''" by simp
  from x2 j2 have c3: "revocationStore_isRevoked ?d2 ''j2''" by simp
  have v: "verifyRefreshToken ex_ts (now (ex_rt 3000 ''j4'')) (ex_token ''a@x.com'' 0 ''j1'')
             = Inr \<lparr> userId = ''a@x.com'', sessionId = ''s1'', jti = ''j1'' \<rparr>"
    by (simp add: ex_defs token_defs)
  have "tokenService ex_deps = Some ex_ts" by (simp add: ex_deps_def)
  with x1 v have c4: "fst (refreshTokens ex_deps (run ex_deps ?d2 []) (ex_rt 3000 ''j4'')
          (ex_token ''a@x.com'' 0 ''j1'')) = Inl (Error ''TOKEN_REVOKED'')"
    by blast
  from h1 h2 h3 c1 c2 c3 c4 show ?thesis by (simp add: run_def)
qed

text \<open>
  C1 as stated fails: a consumed token presented after its expiry is neither answered
  \<^verbatim>\<open>TOKEN_REVOKED\<close> nor \<^verbatim>\<open>TOKEN_REUSE_DETECTED\<close>. After login at clock 0 and one
  refresh at clock 1000, the login token (lifetime seven days) presented at clock
  700000000 fails verification, and \<open>refreshTokens\<close> answers \<^verbatim>\<open>INVALID_TOKEN\<close>.
\<close>

theorem consumed_token_after_expiry_counterexample:
  "loginWithPassword ex_deps ex_db0 (ex_rt 0 ''j1'') ''a@x.com'' ''P@ss1''
     = (Inr ex_login_response, ex_state ''a@x.com'' ''j1'' None {}) \<and>
   refresh_chain ex_deps (ex_state ''a@x.com'' ''j1'' None {})
       (refreshToken (tokens ex_login_response)) [ex_rt 1000 ''j2'']
     = Some ([ex_token ''a@x.com'' 1000 ''j2''], ex_state ''a@x.com'' ''j2'' None {''j1''}) \<and>
   fst (refreshTokens ex_deps (ex_state ''a@x.com'' ''j2'' None {''j1''})
          (ex_rt 700000000 ''j3'') (refreshToken (tokens ex_login_response)))
     = Inl (Error ''INVALID_TOKEN'') \<and>
   fst (refreshTokens ex_deps (ex_state ''a@x.com'' ''j2'' None {''j1''})
          (ex_rt 700000000 ''j3'') (refreshToken (tokens ex_login_response)))
     \<notin> {Inl (Error ''TOKEN_REVOKED''), Inl (Error ''TOKEN_REUSE_DETECTED'')}"
proof -
  have "fst (refreshTokens ex_deps (ex_state ''a@x.com'' ''j2'' None {''j1''})
          (ex_rt 700000000 ''j3'') (ex_token ''a@x.com'' 0 ''j1''))
     = Inl (Error ''INVALID_TOKEN'')"
    by (simp add: ex_defs refreshTokens_def token_defs)
  then show ?thesis
    by (simp add: ex_login ex_login_token ex_refresh1)
qed

text \<open>
  C2. A refresh whose token verifies, whose \<open>jti\<close> is not in the ledger and whose
  session exists and is not revoked, but whose \<open>jti\<close> differs from the session's
  \<open>currentRefreshJti\<close>, revokes the session, adds the presented \<open>jti\<close> to the ledger
  and fails with \<^verbatim>\<open>TOKEN_REUSE_DETECTED\<close>. After that, whatever calls follow, every
  refresh with a token of that session fails.
\<close>

theorem reuse_detection_revokes_session:
  assumes "tokenService dp = Some ts"
    and "verifyRefreshToken ts (now rt) t = Inr p"
    and "\<not> revocationStore_isRevoked d (jti p)"
    and "sessionStore_get d (sessionId p) = Some s"
    and "revokedAt s = None"
    and "currentRefreshJti s \<noteq> jti p"
  shows "\<exists>d'. refreshTokens dp d rt t = (Inl (Error ''TOKEN_REUSE_DETECTED''), d') \<and>
           (\<exists>s'. sessionStore_get d' (sessionId p) = Some s' \<and> revokedAt s' = Some (now rt)) \<and>
           revocationStore_isRevoked d' (jti p) \<and>
           (\<forall>cs rt' t'. token_sessionId t' = Some (sessionId p) \<longrightarrow>
              (\<exists>e. fst (refreshTokens dp (run dp d' cs) rt' t') = Inl e))"
proof -
  from assms(4) obtain row where row: "sessions d (sessionId p) = Some row"
    and s: "s = toSessionRecord (sessionId p) row"
    by (auto simp: sessionStore_get_def)
  define d' where "d' = revocationStore_revoke
      (d\<lparr> sessions := (sessions d)(sessionId p \<mapsto> row\<lparr> row_revokedAt := Some (now rt) \<rparr>) \<rparr>)
      (jti p)"
  have res: "refreshTokens dp d rt t = (Inl (Error ''TOKEN_REUSE_DETECTED''), d')"
    using assms row s
    by (simp add: refreshTokens_def sessionStore_get_def sessionStore_revoke_def
        toSessionRecord_def d'_def)
  have got: "\<exists>s'. sessionStore_get d' (sessionId p) = Some s' \<and> revokedAt s' = Some (now rt)"
    by (simp add: d'_def sessionStore_get_def revocationStore_revoke_def toSessionRecord_def)
  have led: "revocationStore_isRevoked d' (jti p)"
    by (simp add: d'_def revocationStore_isRevoked_def revocationStore_revoke_def)
  have dead: "session_revoked d' (sessionId p)"
    by (simp add: d'_def session_revoked_def revocationStore_revoke_def)
  have later: "\<exists>e. fst (refreshTokens dp (run dp d' cs) rt' t') = Inl e"
    if "token_sessionId t' = Some (sessionId p)" for cs rt' t'
    using run_keeps_revoked [OF dead] that by (rule refreshTokens_revoked_session_fails)
  from res got led later show ?thesis by blast
qed

text \<open>
  C2, an instance: session \<^verbatim>\<open>s1\<close> is at \<^verbatim>\<open>j2\<close>, the ledger is empty, and a
  token of that session with \<^verbatim>\<open>j1\<close> is presented at clock 1000. The session is
  revoked at 1000, \<^verbatim>\<open>j1\<close> enters the ledger, and the token carrying \<^verbatim>\<open>j2\<close>
  is refused afterwards.
\<close>

theorem reuse_detection_revokes_session_witness:
  "tokenService ex_deps = Some ex_ts \<and>
   verifyRefreshToken ex_ts (now (ex_rt 1000 ''j9'')) (ex_token ''a@x.com'' 0 ''j1'')
     = Inr \<lparr> userId = ''a@x.com'', sessionId = ''s1'', jti = ''j1'' \<rparr> \<and>
   \<not> revocationStore_isRevoked (ex_state ''a@x.com'' ''j2'' None {}) ''j1'' \<and>
   sessionStore_get (ex_state ''a@x.com'' ''j2'' None {}) ''s1''
     = Some \<lparr> session_id = ''s1'', session_userId = ''a@x.com'', currentRefreshJti = ''j2'',
              createdAt = 0, revokedAt = None \<rparr> \<and>
   refreshTokens ex_deps (ex_state ''a@x.com'' ''j2'' None {}) (ex_rt 1000 ''j9'')
       (ex_token ''a@x.com'' 0 ''j1'')
     = (Inl (Error ''TOKEN_REUSE_DETECTED''), ex_state ''a@x.com'' ''j2'' (Some 1000) {''j1''}) \<and>
   (\<exists>e. fst (refreshTokens ex_deps (ex_state ''a@x.com'' ''j2'' (Some 1000) {''j1''})
               (ex_rt 2000 ''j9'') (ex_token ''a@x.com'' 0 ''j2'')) = Inl e)"
proof -
  let ?p = "\<lparr> userId = ''a@x.com'', sessionId = ''s1'', jti = ''j1'' \<rparr>"
  let ?s = "\<lparr> session_id = ''s1'', session_userId = ''a@x.com'', currentRefreshJti = ''j2'',
              createdAt = 0, revokedAt = None \<rparr>"
  have h1: "tokenService ex_deps = Some ex_ts" by (simp add: ex_deps_def)
  have h2: "verifyRefreshToken ex_ts (now (ex_rt 1000 ''j9'')) (ex_token ''a@x.com'' 0 ''j1'')
     = Inr ?p"
    by (simp add: ex_defs token_defs)
  have h3: "\<not> revocationStore_isRevoked (ex_state ''a@x.com'' ''j2'' None {}) (jti ?p)"
    by (simp add: ex_state_def revocationStore_isRevoked_def)
  have h4: "sessionStore_get (ex_state ''a@x.com'' ''j2'' None {}) (sessionId ?p) = Some ?s"
    by (simp add: ex_state_def sessionStore_get_def toSessionRecord_def)
  have h5: "revokedAt ?s = None" by simp
  have h6: "currentRefreshJti ?s \<noteq> jti ?p" by simp
  from reuse_detection_revokes_session [OF h1 h2 h3 h4 h5 h6] obtain d' where
    r: "refreshTokens ex_deps (ex_state ''a@x.com'' ''j2'' None {}) (ex_rt 1000 ''j9'')
          (ex_token ''a@x.com'' 0 ''j1'') = (Inl (Error ''TOKEN_REUSE_DETECTED''), d')"
    and l: "\<forall>cs rt' t'. token_sessionId t' = Some (sessionId ?p) \<longrightarrow>
              (\<exists>e. fst (refreshTokens ex_deps (run ex_deps d' cs) rt' t') = Inl e)"
    by blast
  have e: "refreshTokens ex_deps (ex_state ''a@x.com'' ''j2'' None {}) (ex_rt 1000 ''j9'')
       (ex_token ''a@x.com'' 0 ''j1'')
     = (Inl (Error ''TOKEN_REUSE_DETECTED''), ex_state ''a@x.com'' ''j2'' (Some 1000) {''j1''})"
    by (simp add: ex_defs op_defs)
  with r have d': "d' = ex_state ''a@x.com'' ''j2'' (Some 1000) {''j1''}" by simp
  have "token_sessionId (ex_token ''a@x.com'' 0 ''j2'') = Some (sessionId ?p)"
    by (simp add: ex_token_def token_claims_generateRefreshToken)
  with l have "\<exists>e. fst (refreshTokens ex_deps (run ex_deps d' []) (ex_rt 2000 ''j9'')
                 (ex_token ''a@x.com'' 0 ''j2'')) = Inl e"
    by blast
  with d' have c: "\<exists>e. fst (refreshTokens ex_deps (ex_state ''a@x.com'' ''j2'' (Some 1000) {''j1''})
               (ex_rt 2000 ''j9'') (ex_token ''a@x.com'' 0 ''j2'')) = Inl e"
    by (simp add: run_def)
  from h1 h2 h3 h4 e c show ?thesis by simp
qed

text \<open>
  C3, as amended. In \<open>refreshTokens\<close>, once the reuse check has passed, the identity is
  loaded before the presented \<open>jti\<close> is added to the ledger. A
  \<^verbatim>\<open>USER_NOT_FOUND\<close> failure is raised only after the reuse check has passed and
  leaves the database as it was, so the presented \<open>jti\<close> is not revoked by that call;
  when the call succeeds, the presented \<open>jti\<close> is in the ledger.
\<close>

theorem user_lookup_precedes_revocation:
  "(refreshTokens dp d rt t = (Inl (Error ''USER_NOT_FOUND''), d') \<longrightarrow>
      d' = d \<and>
      (\<exists>ts p s. tokenService dp = Some ts \<and> verifyRefreshToken ts (now rt) t = Inr p \<and>
         \<not> revocationStore_isRevoked d (jti p) \<and>
         sessionStore_get d (sessionId p) = Some s \<and> revokedAt s = None \<and>
         currentRefreshJti s = jti p)) \<and>
   (refreshTokens dp d rt t = (Inr r, d') \<longrightarrow>
      (\<exists>j. token_jti t = Some j \<and> revocationStore_isRevoked d' j))"
proof (intro conjI impI)
  assume a: "refreshTokens dp d rt t = (Inl (Error ''USER_NOT_FOUND''), d')"
  then show "d' = d"
    by (auto simp: refreshTokens_def store_defs Let_def
        split: option.splits sum.splits if_splits)
  from a show "\<exists>ts p s. tokenService dp = Some ts \<and>
         verifyRefreshToken ts (now rt) t = Inr p \<and>
         \<not> revocationStore_isRevoked d (jti p) \<and>
         sessionStore_get d (sessionId p) = Some s \<and> revokedAt s = None \<and>
         currentRefreshJti s = jti p"
    by (auto simp: refreshTokens_def store_defs Let_def
        split: option.splits sum.splits if_splits)
next
  assume "refreshTokens dp d rt t = (Inr r, d')"
  from refreshTokens_Inr [OF this] obtain ts p row where
    v: "verifyRefreshToken ts (now rt) t = Inr p"
    and d': "d' = \<lparr> sessions = (sessions d)(sessionId p \<mapsto>
                                row\<lparr> row_currentRefreshJti := randomUUID rt \<rparr>),
                  revokedTokens = insert (jti p) (revokedTokens d) \<rparr>"
    by blast
  from v have "token_jti t = Some (jti p)" using verifyRefreshToken_Inr by blast
  with d' show "\<exists>j. token_jti t = Some j \<and> revocationStore_isRevoked d' j"
    by (simp add: revocationStore_isRevoked_def)
qed

text \<open>
  C3, two instances: a refresh that ends in \<^verbatim>\<open>USER_NOT_FOUND\<close> and leaves
  \<^verbatim>\<open>j1\<close> out of the ledger, and a refresh that succeeds and puts \<^verbatim>\<open>j1\<close> in.
\<close>

theorem user_lookup_precedes_revocation_witness:
  "refreshTokens ghost_deps (ex_state ''u1'' ''j1'' None {}) (ex_rt 1000 ''j2'')
       (ex_token ''u1'' 0 ''j1'')
     = (Inl (Error ''USER_NOT_FOUND''), ex_state ''u1'' ''j1'' None {}) \<and>
   \<not> revocationStore_isRevoked (ex_state ''u1'' ''j1'' None {}) ''j1'' \<and>
   refreshTokens ex_deps (ex_state ''a@x.com'' ''j1'' None {}) (ex_rt 1000 ''j2'')
       (ex_token ''a@x.com'' 0 ''j1'')
     = (Inr \<lparr> accessToken = generateAccessToken ex_ts 1000 ex_access_payload,
              refreshToken = ex_token ''a@x.com'' 1000 ''j2'' \<rparr>,
        ex_state ''a@x.com'' ''j2'' None {''j1''}) \<and>
   revocationStore_isRevoked (ex_state ''a@x.com'' ''j2'' None {''j1''}) ''j1''"
proof -
  have h1: "refreshTokens ghost_deps (ex_state ''u1'' ''j1'' None {}) (ex_rt 1000 ''j2'')
       (ex_token ''u1'' 0 ''j1'')
     = (Inl (Error ''USER_NOT_FOUND''), ex_state ''u1'' ''j1'' None {})"
    by (simp add: ex_defs op_defs)
  have j: "token_jti (ex_token uid 0 ''j1'') = Some ''j1''" for uid
    by (simp add: ex_token_def token_claims_generateRefreshToken)
  from user_lookup_precedes_revocation
    [of ghost_deps "ex_state ''u1'' ''j1'' None {}" "ex_rt 1000 ''j2''"
        "ex_token ''u1'' 0 ''j1''" "ex_state ''u1'' ''j1'' None {}"] h1
  obtain ts p where "verifyRefreshToken ts (now (ex_rt 1000 ''j2'')) (ex_token ''u1'' 0 ''j1'') = Inr p"
    and n: "\<not> revocationStore_isRevoked (ex_state ''u1'' ''j1'' None {}) (jti p)"
    by blast
  then have "token_jti (ex_token ''u1'' 0 ''j1'') = Some (jti p)"
    using verifyRefreshToken_Inr by blast
  with j n have c1: "\<not> revocationStore_isRevoked (ex_state ''u1'' ''j1'' None {}) ''j1''"
    by simp
  from user_lookup_precedes_revocation
    [of ex_deps "ex_state ''a@x.com'' ''j1'' None {}" "ex_rt 1000 ''j2''"
        "ex_token ''a@x.com'' 0 ''j1''" "ex_state ''a@x.com'' ''j2'' None {''j1''}"] ex_refresh1 j
  have c2: "revocationStore_isRevoked (ex_state ''a@x.com'' ''j2'' None {''j1''}) ''j1''"
    by auto
  from h1 c1 ex_refresh1 c2 show ?thesis by simp
qed

text \<open>
  C3 as stated fails. The user \<^verbatim>\<open>b@x.com\<close> has the identifier \<^verbatim>\<open>u1\<close>; the
  login succeeds and issues a refresh token with \<^verbatim>\<open>j1\<close>. The refresh that follows
  looks the identifier up as an email, finds nobody, and fails with
  \<^verbatim>\<open>USER_NOT_FOUND\<close>, although the user exists, with \<^verbatim>\<open>j1\<close> left out of the
  ledger and the database unchanged.
\<close>

theorem user_not_found_before_revocation_counterexample:
  "(case loginWithPassword ghost_deps ex_db0 (ex_rt 0 ''j1'') ''b@x.com'' ''P@ss1'' of
      (Inl e, d1) \<Rightarrow> False
    | (Inr r0, d1) \<Rightarrow>
        token_jti (refreshToken (tokens r0)) = Some ''j1'' \<and>
        refreshTokens ghost_deps d1 (ex_rt 1000 ''j2'') (refreshToken (tokens r0))
          = (Inl (Error ''USER_NOT_FOUND''), d1) \<and>
        \<not> revocationStore_isRevoked d1 ''j1'' \<and>
        summary_id (user r0) = ''u1'' \<and>
        userRepository_findByEmail ghost_deps (summary_email (user r0)) \<noteq> None)"
  by (simp add: ex_defs op_defs)

section \<open>Expired and invalid refresh tokens\<close>

text \<open>
  C4 does not hold of the code. The refresh token issued at clock 0 by the default token
  service expires after seven days. At clock 700000000 \<open>verifyRefreshToken\<close> reports
  \<^verbatim>\<open>TOKEN_EXPIRED\<close> for it and \<^verbatim>\<open>INVALID_TOKEN\<close> for a malformed token, but
  \<open>refreshTokens\<close> answers \<^verbatim>\<open>INVALID_TOKEN\<close> for both, and so does the handler.
\<close>

theorem refreshTokens_expired_is_invalid_token:
  "verifyRefreshToken ex_ts 700000000 (ex_token ''a@x.com'' 0 ''j1'')
     = Inl (Error ''TOKEN_EXPIRED'') \<and>
   verifyRefreshToken ex_ts 700000000 (Malformed ''abc'') = Inl (Error ''INVALID_TOKEN'') \<and>
   refreshTokens ex_deps (ex_state ''a@x.com'' ''j1'' None {}) (ex_rt 700000000 ''j2'')
       (ex_token ''a@x.com'' 0 ''j1'')
     = (Inl (Error ''INVALID_TOKEN''), ex_state ''a@x.com'' ''j1'' None {}) \<and>
   refreshTokens ex_deps (ex_state ''a@x.com'' ''j1'' None {}) (ex_rt 700000000 ''j2'')
       (Malformed ''abc'')
     = (Inl (Error ''INVALID_TOKEN''), ex_state ''a@x.com'' ''j1'' None {}) \<and>
   fst (refresh ex_deps (ex_state ''a@x.com'' ''j1'' None {}) (ex_rt 700000000 ''j2'')
          \<lparr> body_email = Undefined, body_password = Undefined,
            body_refreshToken = JString (ex_token ''a@x.com'' 0 ''j1''),
            body_sessionId = Undefined \<rparr>)
     = \<lparr> status = 401, json = ErrorJson ''INVALID_TOKEN'' ''Invalid refresh token'' \<rparr>"
  by (simp add: ex_defs refreshTokens_def token_defs refresh_def refresh_catch_def
      empty_token_def)

text \<open>No input makes \<open>refreshTokens\<close> fail with the message \<^verbatim>\<open>TOKEN_EXPIRED\<close>.\<close>

lemma refreshTokens_never_token_expired:
  "message e = ''TOKEN_EXPIRED'' \<Longrightarrow> fst (refreshTokens dp d rt t) \<noteq> Inl e"
  by (auto simp: refreshTokens_def store_defs Let_def
      split: option.splits sum.splits if_splits)

section \<open>Login and logout at the boundary\<close>

text \<open>
  C5. A login with an email nobody has and a login with an existing email and a wrong
  password end the same way: the service returns the same result and leaves the
  database alone, and with both services configured that result is the error
  \<^verbatim>\<open>INVALID_CREDENTIALS\<close>; for well-formed requests the handler gives the same
  response, \<^verbatim>\<open>401 INVALID_CREDENTIALS\<close> with the message
  \<^verbatim>\<open>Invalid email or password\<close>.
\<close>

theorem credential_failures_indistinguishable:
  assumes "userRepository_findByEmail dp e1 = None"
    and "userRepository_findByEmail dp e2 = Some u"
    and "\<forall>hv. hashService_verify dp = Some hv \<longrightarrow> \<not> hv p2 (passwordHash u)"
  shows "loginWithPassword dp d rt1 e1 p1 = loginWithPassword dp d rt2 e2 p2 \<and>
         (hashService_verify dp \<noteq> None \<and> tokenService dp \<noteq> None \<longrightarrow>
            loginWithPassword dp d rt1 e1 p1 = (Inl (Error ''INVALID_CREDENTIALS''), d)) \<and>
         (e1 \<noteq> [] \<and> p1 \<noteq> [] \<and> e2 \<noteq> [] \<and> p2 \<noteq> [] \<longrightarrow>
            login dp d rt1 \<lparr> body_email = JString e1, body_password = JString p1,
                             body_refreshToken = x1, body_sessionId = y1 \<rparr>
            = login dp d rt2 \<lparr> body_email = JString e2, body_password = JString p2,
                               body_refreshToken = x2, body_sessionId = y2 \<rparr> \<and>
            (hashService_verify dp \<noteq> None \<and> tokenService dp \<noteq> None \<longrightarrow>
              login dp d rt1 \<lparr> body_email = JString e1, body_password = JString p1,
                               body_refreshToken = x1, body_sessionId = y1 \<rparr>
              = (\<lparr> status = 401,
                    json = ErrorJson ''INVALID_CREDENTIALS'' ''Invalid email or password'' \<rparr>,
                 d)))"
  using assms
  by (auto simp: loginWithPassword_def login_def login_catch_def empty_string_def
      split: option.splits)

text \<open>
  C5, an instance: \<^verbatim>\<open>nobody@x.com\<close> is unknown, \<^verbatim>\<open>a@x.com\<close> exists and
  \<^verbatim>\<open>wrong\<close> is not its password.
\<close>

theorem credential_failures_indistinguishable_witness:
  "userRepository_findByEmail ex_deps ''nobody@x.com'' = None \<and>
   userRepository_findByEmail ex_deps ''a@x.com'' = Some ex_user \<and>
   hashService_verify ex_deps = Some ex_hash_verify \<and>
   \<not> ex_hash_verify ''wrong'' (passwordHash ex_user) \<and>
   loginWithPassword ex_deps ex_db0 (ex_rt 0 ''j1'') ''nobody@x.com'' ''P@ss1''
     = (Inl (Error ''INVALID_CREDENTIALS''), ex_db0) \<and>
   loginWithPassword ex_deps ex_db0 (ex_rt 5 ''j2'') ''a@x.com'' ''wrong''
     = (Inl (Error ''INVALID_CREDENTIALS''), ex_db0) \<and>
   login ex_deps ex_db0 (ex_rt 0 ''j1'') (ex_body ''nobody@x.com'' ''P@ss1'')
     = (\<lparr> status = 401,
           json = ErrorJson ''INVALID_CREDENTIALS'' ''Invalid email or password'' \<rparr>, ex_db0) \<and>
   login ex_deps ex_db0 (ex_rt 5 ''j2'') (ex_body ''a@x.com'' ''wrong'')
     = (\<lparr> status = 401,
           json = ErrorJson ''INVALID_CREDENTIALS'' ''Invalid email or password'' \<rparr>, ex_db0)"
proof -
  have h1: "userRepository_findByEmail ex_deps ''nobody@x.com'' = None"
    by (simp add: ex_deps_def)
  have h2: "userRepository_findByEmail ex_deps ''a@x.com'' = Some ex_user"
    by (simp add: ex_deps_def)
  have hv: "hashService_verify ex_deps = Some ex_hash_verify"
    by (simp add: ex_deps_def)
  have wrong: "\<not> ex_hash_verify ''wrong'' (passwordHash ex_user)"
    by (simp add: ex_hash_verify_def ex_user_def)
  from hv wrong
  have h3: "\<forall>hv. hashService_verify ex_deps = Some hv \<longrightarrow> \<not> hv ''wrong'' (passwordHash ex_user)"
    by simp
  have cfg: "hashService_verify ex_deps \<noteq> None \<and> tokenService ex_deps \<noteq> None"
    by (simp add: ex_deps_def)
  note c = credential_failures_indistinguishable [OF h1 h2 h3,
      of ex_db0 "ex_rt 0 ''j1''" "''P@ss1''" "ex_rt 5 ''j2''" Undefined Undefined
         Undefined Undefined]
  from c cfg have a: "loginWithPassword ex_deps ex_db0 (ex_rt 0 ''j1'') ''nobody@x.com'' ''P@ss1''
     = (Inl (Error ''INVALID_CREDENTIALS''), ex_db0)" by blast
  with c have b: "loginWithPassword ex_deps ex_db0 (ex_rt 5 ''j2'') ''a@x.com'' ''wrong''
     = (Inl (Error ''INVALID_CREDENTIALS''), ex_db0)" by simp
  have ne: "''nobody@x.com'' \<noteq> [] \<and> ''P@ss1'' \<noteq> [] \<and> ''a@x.com'' \<noteq> [] \<and> ''wrong'' \<noteq> []"
    by simp
  from c ne cfg have r1: "login ex_deps ex_db0 (ex_rt 0 ''j1'')
       \<lparr> body_email = JString ''nobody@x.com'', body_password = JString ''P@ss1'',
         body_refreshToken = Undefined, body_sessionId = Undefined \<rparr>
     = (\<lparr> status = 401,
           json = ErrorJson ''INVALID_CREDENTIALS'' ''Invalid email or password'' \<rparr>, ex_db0)"
    by blast
  from c ne have "login ex_deps ex_db0 (ex_rt 0 ''j1'')
       \<lparr> body_email = JString ''nobody@x.com'', body_password = JString ''P@ss1'',
         body_refreshToken = Undefined, body_sessionId = Undefined \<rparr>
     = login ex_deps ex_db0 (ex_rt 5 ''j2'')
       \<lparr> body_email = JString ''a@x.com'', body_password = JString ''wrong'',
         body_refreshToken = Undefined, body_sessionId = Undefined \<rparr>"
    by blast
  with r1 have r2: "login ex_deps ex_db0 (ex_rt 5 ''j2'')
       \<lparr> body_email = JString ''a@x.com'', body_password = JString ''wrong'',
         body_refreshToken = Undefined, body_sessionId = Undefined \<rparr>
     = (\<lparr> status = 401,
           json = ErrorJson ''INVALID_CREDENTIALS'' ''Invalid email or password'' \<rparr>, ex_db0)"
    by simp
  from r1 have l1: "login ex_deps ex_db0 (ex_rt 0 ''j1'') (ex_body ''nobody@x.com'' ''P@ss1'')
     = (\<lparr> status = 401,
           json = ErrorJson ''INVALID_CREDENTIALS'' ''Invalid email or password'' \<rparr>, ex_db0)"
    by (simp only: ex_body_def)
  from r2 have l2: "login ex_deps ex_db0 (ex_rt 5 ''j2'') (ex_body ''a@x.com'' ''wrong'')
     = (\<lparr> status = 401,
           json = ErrorJson ''INVALID_CREDENTIALS'' ''Invalid email or password'' \<rparr>, ex_db0)"
    by (simp only: ex_body_def)
  from h1 h2 hv wrong a b l1 l2 show ?thesis by blast
qed

text \<open>
  C6. For every session identifier and every database, \<open>logout\<close> returns without error,
  and so does a second \<open>logout\<close> with the same identifier; the handler answers a request
  carrying a non-empty \<^verbatim>\<open>sessionId\<close> with \<^verbatim>\<open>200 {success: true}\<close>, the first
  time and the second. The answer is the same whether or not the session exists or is
  already revoked.
\<close>

theorem logout_idempotent:
  "fst (logout d rt sid) = Inr () \<and>
   fst (logout (snd (logout d rt sid)) rt' sid) = Inr () \<and>
   (sid \<noteq> [] \<longrightarrow>
      fst (logout_handler dp d rt \<lparr> body_email = x, body_password = y,
             body_refreshToken = Undefined, body_sessionId = JString sid \<rparr>)
        = \<lparr> status = 200, json = SuccessJson True \<rparr> \<and>
      fst (logout_handler dp
             (snd (logout_handler dp d rt \<lparr> body_email = x, body_password = y,
                     body_refreshToken = Undefined, body_sessionId = JString sid \<rparr>))
             rt' \<lparr> body_email = x', body_password = y',
                    body_refreshToken = Undefined, body_sessionId = JString sid \<rparr>)
        = \<lparr> status = 200, json = SuccessJson True \<rparr>)"
  by (auto simp: logout_def logout_handler_def sessionStore_get_def sessionStore_revoke_def
      empty_string_def empty_token_def Let_def split: option.splits sum.splits prod.splits)

text \<open>
  C6, three instances: the session \<^verbatim>\<open>s1\<close> does not exist, is active, is already
  revoked.
\<close>

theorem logout_idempotent_witness:
  "''s1'' \<noteq> [] \<and>
   fst (logout_handler ex_deps ex_db0 (ex_rt 7 ''j9'') (ex_logout_body ''s1''))
     = \<lparr> status = 200, json = SuccessJson True \<rparr> \<and>
   fst (logout_handler ex_deps (ex_state ''a@x.com'' ''j1'' None {}) (ex_rt 7 ''j9'')
          (ex_logout_body ''s1''))
     = \<lparr> status = 200, json = SuccessJson True \<rparr> \<and>
   fst (logout_handler ex_deps (ex_state ''a@x.com'' ''j1'' (Some 5) {''j1''}) (ex_rt 7 ''j9'')
          (ex_logout_body ''s1''))
     = \<lparr> status = 200, json = SuccessJson True \<rparr>"
  using logout_idempotent [of ex_db0 "ex_rt 7 ''j9''" "''s1''" "ex_rt 7 ''j9''" ex_deps
      Undefined Undefined Undefined Undefined]
    logout_idempotent [of "ex_state ''a@x.com'' ''j1'' None {}" "ex_rt 7 ''j9''" "''s1''"
      "ex_rt 7 ''j9''" ex_deps Undefined Undefined Undefined Undefined]
    logout_idempotent [of "ex_state ''a@x.com'' ''j1'' (Some 5) {''j1''}" "ex_rt 7 ''j9''" "''s1''"
      "ex_rt 7 ''j9''" ex_deps Undefined Undefined Undefined Undefined]
  by (simp add: ex_logout_body_def)

section \<open>Token typing\<close>




text \<open>
  C10, as amended. A token that \<^verbatim>\<open>jwt.verify\<close> accepts under the secret of
  \<open>verifyAccessToken\<close> (valid signature, not expired, expected audience and issuer) but
  whose type is not \<^verbatim>\<open>access\<close> makes the verifier throw the plain error
  \<^verbatim>\<open>Invalid token type\<close>, which is neither \<^verbatim>\<open>TOKEN_EXPIRED\<close> nor
  \<^verbatim>\<open>INVALID_TOKEN\<close>; the authentication middleware answers it with its generic
  \<^verbatim>\<open>Authentication failed\<close>. The same holds of \<open>verifyRefreshToken\<close> and the type
  \<^verbatim>\<open>refresh\<close>.
\<close>

theorem wrong_type_plain_error:
  "(jwt_verify t (accessSecret ts) ''sogas-rh'' ''sogas-rh-api'' clock = Inr decoded \<and>
      type_of decoded \<noteq> ''access'' \<longrightarrow>
      verifyAccessToken ts clock t = Inl (Error ''Invalid token type'') \<and>
      requireAuth ts clock t =
        Inl \<lparr> status = 401,
              json = UnauthorizedJson ''Unauthorized'' ''Authentication failed'' \<rparr>) \<and>
   (jwt_verify t (refreshSecret ts) ''sogas-rh'' ''sogas-rh-api'' clock = Inr decoded \<and>
      type_of decoded \<noteq> ''refresh'' \<longrightarrow>
      verifyRefreshToken ts clock t = Inl (Error ''Invalid token type'')) \<and>
   message (Error ''Invalid token type'') \<notin> {''TOKEN_EXPIRED'', ''INVALID_TOKEN''}"
  by (simp add: verifyAccessToken_def verifyRefreshToken_def verify_catch_def requireAuth_def
      requireAuth_catch_def)

text \<open>
  C10, two instances, with a service that signs both kinds of token with the secret
  \<^verbatim>\<open>k\<close>: its refresh token presented as an access token, and its access token
  presented as a refresh token, both within their lifetime.
\<close>

theorem wrong_type_plain_error_witness:
  "jwt_verify (generateRefreshToken shared_ts 0
       \<lparr> userId = ''a@x.com'', sessionId = ''s1'', jti = ''j1'' \<rparr>)
     (accessSecret shared_ts) ''sogas-rh'' ''sogas-rh-api'' 1000
     = Inr (RefreshClaims ''a@x.com'' ''s1'' ''j1'') \<and>
   type_of (RefreshClaims ''a@x.com'' ''s1'' ''j1'') \<noteq> ''access'' \<and>
   verifyAccessToken shared_ts 1000 (generateRefreshToken shared_ts 0
       \<lparr> userId = ''a@x.com'', sessionId = ''s1'', jti = ''j1'' \<rparr>)
     = Inl (Error ''Invalid token type'') \<and>
   requireAuth shared_ts 1000 (generateRefreshToken shared_ts 0
       \<lparr> userId = ''a@x.com'', sessionId = ''s1'', jti = ''j1'' \<rparr>)
     = Inl \<lparr> status = 401,
             json = UnauthorizedJson ''Unauthorized'' ''Authentication failed'' \<rparr> \<and>
   jwt_verify (generateAccessToken shared_ts 0 ex_access_payload)
     (refreshSecret shared_ts) ''sogas-rh'' ''sogas-rh-api'' 1000
     = Inr (AccessClaims ''a@x.com'' ''a@x.com'' [''r1''] [''employee.read'']) \<and>
   type_of (AccessClaims ''a@x.com'' ''a@x.com'' [''r1''] [''employee.read'']) \<noteq> ''refresh'' \<and>
   verifyRefreshToken shared_ts 1000 (generateAccessToken shared_ts 0 ex_access_payload)
     = Inl (Error ''Invalid token type'')"
proof -
  let ?rtok = "generateRefreshToken shared_ts 0
       \<lparr> userId = ''a@x.com'', sessionId = ''s1'', jti = ''j1'' \<rparr>"
  let ?atok = "generateAccessToken shared_ts 0 ex_access_payload"
  have h1: "jwt_verify ?rtok (accessSecret shared_ts) ''sogas-rh'' ''sogas-rh-api'' 1000
     = Inr (RefreshClaims ''a@x.com'' ''s1'' ''j1'')"
    by (simp add: token_defs shared_ts_simps)
  have h2: "type_of (RefreshClaims ''a@x.com'' ''s1'' ''j1'') \<noteq> ''access''" by simp
  have h3: "jwt_verify ?atok (refreshSecret shared_ts) ''sogas-rh'' ''sogas-rh-api'' 1000
     = Inr (AccessClaims ''a@x.com'' ''a@x.com'' [''r1''] [''employee.read''])"
    by (simp add: token_defs shared_ts_simps ex_access_payload_def)
  have h4: "type_of (AccessClaims ''a@x.com'' ''a@x.com'' [''r1''] [''employee.read''])
      \<noteq> ''refresh''" by simp
  from wrong_type_plain_error [of ?rtok shared_ts 1000 "RefreshClaims ''a@x.com'' ''s1'' ''j1''"]
    h1 h2
  have c1: "verifyAccessToken shared_ts 1000 ?rtok = Inl (Error ''Invalid token type'') \<and>
      requireAuth shared_ts 1000 ?rtok =
        Inl \<lparr> status = 401,
              json = UnauthorizedJson ''Unauthorized'' ''Authentication failed'' \<rparr>"
    by blast
  from wrong_type_plain_error [of ?atok shared_ts 1000
      "AccessClaims ''a@x.com'' ''a@x.com'' [''r1''] [''employee.read'']"] h3 h4
  have c2: "verifyRefreshToken shared_ts 1000 ?atok = Inl (Error ''Invalid token type'')"
    by blast
  from h1 h2 h3 h4 c1 c2 show ?thesis by blast
qed

text \<open>
  C10 as stated fails: a valid signature is not enough. The refresh token of the service
  with the shared secret has a signature that verifies under the access secret and a
  type other than \<^verbatim>\<open>access\<close>; presented to \<open>verifyAccessToken\<close> after its expiry,
  it is answered \<^verbatim>\<open>TOKEN_EXPIRED\<close>.
\<close>

theorem wrong_type_after_expiry_counterexample:
  "jwt_verify (generateRefreshToken shared_ts 0
       \<lparr> userId = ''a@x.com'', sessionId = ''s1'', jti = ''j1'' \<rparr>)
     (accessSecret shared_ts) ''sogas-rh'' ''sogas-rh-api'' 0
     = Inr (RefreshClaims ''a@x.com'' ''s1'' ''j1'') \<and>
   type_of (RefreshClaims ''a@x.com'' ''s1'' ''j1'') \<noteq> ''access'' \<and>
   verifyAccessToken shared_ts 700000000 (generateRefreshToken shared_ts 0
       \<lparr> userId = ''a@x.com'', sessionId = ''s1'', jti = ''j1'' \<rparr>)
     = Inl (Error ''TOKEN_EXPIRED'') \<and>
   verifyAccessToken shared_ts 700000000 (generateRefreshToken shared_ts 0
       \<lparr> userId = ''a@x.com'', sessionId = ''s1'', jti = ''j1'' \<rparr>)
     \<noteq> Inl (Error ''Invalid token type'')"
  by (simp add: token_defs shared_ts_simps)

section \<open>The session store and the early failures of a refresh\<close>

text \<open>
  C8, as amended. On a session that is already revoked, \<open>revoke\<close> of the session store
  raises no error and leaves the session revoked: the identifier, user, current
  \<open>jti\<close> and creation time are unchanged, the other sessions and the ledger are
  untouched, and the revocation timestamp is overwritten with the current time.
\<close>

theorem sessionStore_revoke_overwrites:
  assumes "sessionStore_get d sid = Some s" and "revokedAt s = Some t0"
  shows "\<exists>d'. sessionStore_revoke d clock sid = Inr d' \<and>
           sessionStore_get d' sid = Some (s\<lparr> revokedAt := Some clock \<rparr>) \<and>
           (\<forall>sid'. sid' \<noteq> sid \<longrightarrow> sessionStore_get d' sid' = sessionStore_get d sid') \<and>
           revokedTokens d' = revokedTokens d"
  using assms
  by (auto simp: sessionStore_get_def sessionStore_revoke_def toSessionRecord_def
      split: option.splits)

text \<open>
  C8, an instance: the session \<^verbatim>\<open>s1\<close>, revoked at 5, is revoked again at 9.
\<close>

theorem sessionStore_revoke_overwrites_witness:
  "sessionStore_get (ex_state ''a@x.com'' ''j1'' (Some 5) {''j1''}) ''s1''
     = Some \<lparr> session_id = ''s1'', session_userId = ''a@x.com'', currentRefreshJti = ''j1'',
              createdAt = 0, revokedAt = Some 5 \<rparr> \<and>
   (\<exists>d'. sessionStore_revoke (ex_state ''a@x.com'' ''j1'' (Some 5) {''j1''}) 9 ''s1'' = Inr d' \<and>
      sessionStore_get d' ''s1''
        = Some \<lparr> session_id = ''s1'', session_userId = ''a@x.com'', currentRefreshJti = ''j1'',
                 createdAt = 0, revokedAt = Some 9 \<rparr> \<and>
      revokedTokens d' = {''j1''})"
proof -
  let ?s = "\<lparr> session_id = ''s1'', session_userId = ''a@x.com'', currentRefreshJti = ''j1'',
              createdAt = 0, revokedAt = Some 5 \<rparr>"
  have h1: "sessionStore_get (ex_state ''a@x.com'' ''j1'' (Some 5) {''j1''}) ''s1'' = Some ?s"
    by (simp add: ex_state_def sessionStore_get_def toSessionRecord_def)
  have h2: "revokedAt ?s = Some 5" by simp
  from sessionStore_revoke_overwrites [OF h1 h2, of 9] h1 show ?thesis
    by (auto simp: ex_state_def)
qed

text \<open>
  C8 as stated fails: revoking the session \<^verbatim>\<open>s1\<close>, already revoked at 5, again at
  clock 9 changes its record, whose revocation timestamp becomes 9.
\<close>

theorem sessionStore_revoke_noop_counterexample:
  "map_option revokedAt (sessionStore_get (ex_state ''a@x.com'' ''j1'' (Some 5) {''j1''}) ''s1'')
     = Some (Some 5) \<and>
   (case sessionStore_revoke (ex_state ''a@x.com'' ''j1'' (Some 5) {''j1''}) 9 ''s1'' of
      Inl e \<Rightarrow> False
    | Inr d' \<Rightarrow>
        map_option revokedAt (sessionStore_get d' ''s1'') = Some (Some 9) \<and>
        sessionStore_get d' ''s1''
          \<noteq> sessionStore_get (ex_state ''a@x.com'' ''j1'' (Some 5) {''j1''}) ''s1'')"
  by (simp add: ex_state_def sessionStore_get_def sessionStore_revoke_def toSessionRecord_def)

text \<open>
  C9. When \<open>refreshTokens\<close> fails with \<^verbatim>\<open>INVALID_TOKEN\<close>, \<^verbatim>\<open>TOKEN_REVOKED\<close>,
  \<^verbatim>\<open>SESSION_NOT_FOUND\<close> or \<^verbatim>\<open>SESSION_REVOKED\<close>, the database it leaves is the
  one it found: neither the session table nor the ledger has been written.
\<close>

theorem refreshTokens_early_failures_atomic:
  assumes "refreshTokens dp d rt t = (Inl e, d')"
    and "message e \<in> {''INVALID_TOKEN'', ''TOKEN_REVOKED'', ''SESSION_NOT_FOUND'',
                       ''SESSION_REVOKED''}"
  shows "d' = d"
  using assms
  by (auto simp: refreshTokens_def sessionStore_get_def sessionStore_revoke_def
      sessionStore_setRefreshJti_def revocationStore_revoke_def Let_def
      split: option.splits sum.splits if_splits)

text \<open>
  C9, four instances, one for each failure: a malformed token, a token whose \<open>jti\<close> is
  in the ledger, a token of a session that does not exist, a token of a revoked session.
\<close>

theorem refreshTokens_early_failures_atomic_witness:
  "refreshTokens ex_deps (ex_state ''a@x.com'' ''j1'' None {}) (ex_rt 1000 ''j2'')
       (Malformed ''abc'')
     = (Inl (Error ''INVALID_TOKEN''), ex_state ''a@x.com'' ''j1'' None {}) \<and>
   refreshTokens ex_deps (ex_state ''a@x.com'' ''j2'' None {''j1''}) (ex_rt 1000 ''j3'')
       (ex_token ''a@x.com'' 0 ''j1'')
     = (Inl (Error ''TOKEN_REVOKED''), ex_state ''a@x.com'' ''j2'' None {''j1''}) \<and>
   refreshTokens ex_deps ex_db0 (ex_rt 1000 ''j2'') (ex_token ''a@x.com'' 0 ''j1'')
     = (Inl (Error ''SESSION_NOT_FOUND''), ex_db0) \<and>
   refreshTokens ex_deps (ex_state ''a@x.com'' ''j1'' (Some 5) {}) (ex_rt 1000 ''j2'')
       (ex_token ''a@x.com'' 0 ''j1'')
     = (Inl (Error ''SESSION_REVOKED''), ex_state ''a@x.com'' ''j1'' (Some 5) {})"
proof -
  have atomic: "refreshTokens ex_deps d rt t = (Inl (Error m), d)"
    if "\<exists>d'. refreshTokens ex_deps d rt t = (Inl (Error m), d')"
      and "m \<in> {''INVALID_TOKEN'', ''TOKEN_REVOKED'', ''SESSION_NOT_FOUND'', ''SESSION_REVOKED''}"
    for d rt t m
  proof -
    from that(1) obtain d' where r: "refreshTokens ex_deps d rt t = (Inl (Error m), d')" ..
    from that(2) have "message (Error m) \<in>
        {''INVALID_TOKEN'', ''TOKEN_REVOKED'', ''SESSION_NOT_FOUND'', ''SESSION_REVOKED''}"
      by simp
    with r have "d' = d" by (rule refreshTokens_early_failures_atomic)
    with r show ?thesis by simp
  qed
  have e1: "\<exists>d'. refreshTokens ex_deps (ex_state ''a@x.com'' ''j1'' None {}) (ex_rt 1000 ''j2'')
       (Malformed ''abc'') = (Inl (Error ''INVALID_TOKEN''), d')"
    by (simp add: ex_defs op_defs)
  have e2: "\<exists>d'. refreshTokens ex_deps (ex_state ''a@x.com'' ''j2'' None {''j1''})
       (ex_rt 1000 ''j3'') (ex_token ''a@x.com'' 0 ''j1'') = (Inl (Error ''TOKEN_REVOKED''), d')"
    by (simp add: ex_defs op_defs)
  have e3: "\<exists>d'. refreshTokens ex_deps ex_db0 (ex_rt 1000 ''j2'') (ex_token ''a@x.com'' 0 ''j1'')
     = (Inl (Error ''SESSION_NOT_FOUND''), d')"
    by (simp add: ex_defs op_defs)
  have e4: "\<exists>d'. refreshTokens ex_deps (ex_state ''a@x.com'' ''j1'' (Some 5) {})
       (ex_rt 1000 ''j2'') (ex_token ''a@x.com'' 0 ''j1'') = (Inl (Error ''SESSION_REVOKED''), d')"
    by (simp add: ex_defs op_defs)
  from atomic [OF e1] atomic [OF e2] atomic [OF e3] atomic [OF e4] show ?thesis by simp
qed

end
